theory Spec2Isabelle
  imports Main "HOL-Library.Log_Nat"
begin

section \<open>JavaScript values used by the calculator\<close>

text \<open>
  A JavaScript string is a sequence of UTF-16 code units; a code unit is modelled by its
  number, an integer from 0 to 65535. The calculator's key labels need code units beyond
  Latin-1 (U+232B, U+215F, U+221A), and \<open>length\<close>, \<open>slice\<close> and the regular
  expressions of the source count code units, as \<open>length\<close>, \<open>butlast\<close> and \<open>last\<close> do
  on this list.
\<close>

type_synonym jsstring = "int list"

definition ascii :: "string \<Rightarrow> jsstring" where
  "ascii = map of_char"

text \<open>
  A JavaScript Number: the IEEE 754 binary64 values. A finite value is the rational it
  denotes; the negative zero is a value of its own. The Numbers are the values \<open>Num r\<close>
  with \<open>r\<close> a rational that binary64 represents, and every operation below returns one
  of them when given them.
\<close>

datatype jsnum = NaN | PosInfinity | NegInfinity | NegZero | Num rat

definition isNaN :: "jsnum \<Rightarrow> bool" where
  "isNaN x = (x = NaN)"

definition isFinite :: "jsnum \<Rightarrow> bool" where
  "isFinite x = (x \<noteq> NaN \<and> x \<noteq> PosInfinity \<and> x \<noteq> NegInfinity)"

text \<open>\<open>num === 0\<close>: both zeros are equal to 0.\<close>

definition is_zero :: "jsnum \<Rightarrow> bool" where
  "is_zero x = (x = Num 0 \<or> x = NegZero)"

text \<open>\<open>num < 0\<close>: false for NaN and for both zeros.\<close>

definition is_negative :: "jsnum \<Rightarrow> bool" where
  "is_negative x = (case x of Num r \<Rightarrow> r < 0 | NegInfinity \<Rightarrow> True | _ \<Rightarrow> False)"

text \<open>Unary minus flips the sign, also of a zero; it never rounds.\<close>

definition negate :: "jsnum \<Rightarrow> jsnum" where
  "negate x = (case x of
      NaN \<Rightarrow> NaN
    | PosInfinity \<Rightarrow> NegInfinity
    | NegInfinity \<Rightarrow> PosInfinity
    | NegZero \<Rightarrow> Num 0
    | Num r \<Rightarrow> (if r = 0 then NegZero else Num (- r)))"

text \<open>
  The built-ins of the JavaScript engine that the component calls and that round, parse or
  print numbers, or run program text. The component is modelled for every such
  collection of built-ins; \<open>ecma\<close> below is the one of ECMAScript.
  \<^item> \<open>b_parseFloat\<close>: the global \<open>parseFloat\<close>;
  \<^item> \<open>b_toFixed\<close>: \<open>Number.prototype.toFixed\<close>;
  \<^item> \<open>b_Number\<close>: \<open>Number\<close> applied to a string;
  \<^item> \<open>b_toString\<close>: \<open>Number.prototype.toString\<close>;
  \<^item> \<open>b_Function\<close>: \<open>Function(body)()\<close>: the Number returned, and \<open>None\<close> when
    compiling or running the body throws or when the value returned is not a Number. The
    character class of \<open>safeEval\<close> admits regular expression literals; of such a value
    and of what is computed from it \<open>isNaN\<close> is true, as it is of the NaN that the
    \<open>catch\<close> of \<open>safeEval\<close> returns;
  \<^item> \<open>b_divide\<close>, \<open>b_multiply\<close>, \<open>b_sqrt\<close>: the operators \<open>/\<close> and \<open>*\<close> on Numbers,
    and \<open>Math.sqrt\<close>.
\<close>

record builtins =
  b_parseFloat :: "jsstring \<Rightarrow> jsnum"
  b_toFixed :: "jsnum \<Rightarrow> nat \<Rightarrow> jsstring"
  b_Number :: "jsstring \<Rightarrow> jsnum"
  b_toString :: "jsnum \<Rightarrow> jsstring"
  b_Function :: "jsstring \<Rightarrow> jsnum option"
  b_divide :: "jsnum \<Rightarrow> jsnum \<Rightarrow> jsnum"
  b_multiply :: "jsnum \<Rightarrow> jsnum \<Rightarrow> jsnum"
  b_sqrt :: "jsnum \<Rightarrow> jsnum"

section \<open>String operations of the source\<close>

text \<open>Code units: \<open>+\<close> 43, \<open>-\<close> 45, \<open>*\<close> 42, \<open>/\<close> 47, \<open>.\<close> 46, \<open>,\<close> 44, \<open>(\<close> 40,
  \<open>)\<close> 41, space 32, the multiplication sign U+00D7 215, the division sign U+00F7 247.\<close>

definition isDigit :: "int \<Rightarrow> bool" where
  "isDigit c = (48 \<le> c \<and> c \<le> 57)"

text \<open>The character class \<open>[+\-\<times>\<div>]\<close> of the source's regular expressions.\<close>

definition isOperatorChar :: "int \<Rightarrow> bool" where
  "isOperatorChar c = (c = 43 \<or> c = 45 \<or> c = 215 \<or> c = 247)"

text \<open>WhiteSpace and LineTerminator code units, which \<open>String.prototype.trim\<close> strips.\<close>

definition isWhiteSpace :: "int \<Rightarrow> bool" where
  "isWhiteSpace c = (c \<in> {9, 10, 11, 12, 13, 32, 160, 5760, 8232, 8233, 8239, 8287, 12288, 65279}
     \<or> (8192 \<le> c \<and> c \<le> 8202))"

definition trim :: "jsstring \<Rightarrow> jsstring" where
  "trim s = rev (dropWhile isWhiteSpace (rev (dropWhile isWhiteSpace s)))"

text \<open>\<open>s.split(re)\<close> for a regular expression that matches one code unit of a class.\<close>

fun split_class :: "(int \<Rightarrow> bool) \<Rightarrow> jsstring \<Rightarrow> jsstring list" where
  "split_class p [] = [[]]"
| "split_class p (c # cs) =
     (if p c then [] # split_class p cs
      else (case split_class p cs of
              [] \<Rightarrow> [[c]]
            | part # parts \<Rightarrow> (c # part) # parts))"

section \<open>The calculator component\<close>

record state =
  expression :: jsstring
  screenNumbers :: jsstring
  previousResult :: "jsnum option"

text \<open>The three \<open>useState\<close> initial values.\<close>

definition initial_state :: state where
  "initial_state = \<lparr>expression = [], screenNumbers = ascii ''0'', previousResult = None\<rparr>"

text \<open>The state every failure branch of \<open>handleButtonClick\<close> sets.\<close>

definition error_state :: state where
  "error_state = \<lparr>expression = [], screenNumbers = ascii ''Error'', previousResult = None\<rparr>"

text \<open>Key labels with code units outside ASCII: backspace is U+232B; reciprocal is
  U+215F followed by \<open>x\<close>; square is \<open>x\<close> followed by U+00B2; square root is U+00B2,
  U+221A, \<open>x\<close>.\<close>

definition key_backspace :: jsstring where
  "key_backspace = [9003]"

definition key_reciprocal :: jsstring where
  "key_reciprocal = [8543, 120]"

definition key_square :: jsstring where
  "key_square = [120, 178]"

definition key_sqrt :: jsstring where
  "key_sqrt = [178, 8730, 120]"

definition key_divide :: jsstring where
  "key_divide = [247]"

definition key_times :: jsstring where
  "key_times = [215]"

definition buttonValues :: "jsstring list" where
  "buttonValues =
    [ascii ''%'', ascii ''CE'', ascii ''C'', key_backspace,
     key_reciprocal, key_square, key_sqrt, key_divide,
     ascii ''7'', ascii ''8'', ascii ''9'', key_times,
     ascii ''4'', ascii ''5'', ascii ''6'', ascii ''-'',
     ascii ''1'', ascii ''2'', ascii ''3'', ascii ''+'',
     ascii ''+/-'', ascii ''0'', ascii '','', ascii ''='']"

text \<open>The array \<open>["+", "-", "\<times>", "\<div>"]\<close> of the binary operator branch.\<close>

definition binaryOperators :: "jsstring list" where
  "binaryOperators = [ascii ''+'', ascii ''-'', key_times, key_divide]"

definition formatNumber :: "builtins \<Rightarrow> jsnum \<Rightarrow> jsstring" where
  "formatNumber B num =
     (if \<not> isFinite num then ascii ''Error''
      else b_toString B (b_Number B (b_toFixed B num 8)))"

text \<open>The three \<open>replace\<close> calls of \<open>safeEval\<close>.\<close>

definition sanitize :: "jsstring \<Rightarrow> jsstring" where
  "sanitize e = map (\<lambda>c. if c = 44 then 46 else c)
                  (map (\<lambda>c. if c = 215 then 42 else c)
                    (map (\<lambda>c. if c = 247 then 47 else c) e))"

text \<open>The class \<open>[\d+\-*/.() ]\<close>, and the test of \<open>/^[\d+\-*/.() ]+$/\<close>.\<close>

definition allowedChar :: "int \<Rightarrow> bool" where
  "allowedChar c = (isDigit c \<or> c = 43 \<or> c = 45 \<or> c = 42 \<or> c = 47 \<or> c = 46
     \<or> c = 40 \<or> c = 41 \<or> c = 32)"

definition securityCheck :: "jsstring \<Rightarrow> bool" where
  "securityCheck sanitized = (sanitized \<noteq> [] \<and> list_all allowedChar sanitized)"

text \<open>The text handed to the \<open>Function\<close> constructor; 34 is the double quote.\<close>

definition functionBody :: "jsstring \<Rightarrow> jsstring" where
  "functionBody sanitized =
     [34] @ ascii ''use strict'' @ [34] @ ascii ''; return ('' @ sanitized @ ascii '')''"

text \<open>\<open>safeEval\<close>: the \<open>throw\<close> of the security check and every exception of the
  \<open>Function\<close> call end in the \<open>catch\<close>, which returns NaN.\<close>

definition safeEval :: "builtins \<Rightarrow> jsstring \<Rightarrow> jsnum" where
  "safeEval B e =
     (let sanitized = sanitize e in
      if \<not> securityCheck sanitized then NaN
      else (case b_Function B (functionBody sanitized) of
              None \<Rightarrow> NaN
            | Some v \<Rightarrow> v))"

text \<open>
  The object \<open>mathOps\<close>, applied to a key: \<open>None\<close> when the object has no such key,
  otherwise the value its function returns, \<open>None\<close> there being \<open>null\<close>. The keys
  are the five labels; a key is one of \<open>buttonValues\<close>, so no property inherited from
  \<open>Object.prototype\<close> is looked up.
\<close>

definition mathOps :: "builtins \<Rightarrow> jsstring \<Rightarrow> jsstring \<Rightarrow> jsstring option option" where
  "mathOps B screen val =
     (let num = b_parseFloat B screen in
      if val = ascii ''%'' then
        Some (if isFinite num then Some (formatNumber B (b_divide B num (Num 100))) else None)
      else if val = ascii ''+/-'' then
        Some (if isFinite num then Some (formatNumber B (negate num)) else None)
      else if val = key_reciprocal then
        Some (if \<not> isFinite num \<or> is_zero num then None
              else Some (formatNumber B (b_divide B (Num 1) num)))
      else if val = key_square then
        Some (if isFinite num then Some (formatNumber B (b_multiply B num num)) else None)
      else if val = key_sqrt then
        Some (if \<not> isFinite num \<or> is_negative num then None
              else Some (formatNumber B (b_sqrt B num)))
      else None)"

text \<open>\<open>handleButtonClick\<close>: the state after one key, in the order of the source's
  branches. A state variable that a branch does not set keeps its value.\<close>

definition handleButtonClick :: "builtins \<Rightarrow> state \<Rightarrow> jsstring \<Rightarrow> state" where
  "handleButtonClick B s val =
    (if val = ascii ''C'' then
       \<lparr>expression = [], screenNumbers = ascii ''0'', previousResult = None\<rparr>
     else if val = ascii ''='' then
       (if trim (expression s) = [] then s
        else
          let result = safeEval B (expression s) in
          if isNaN result \<or> \<not> isFinite result then
            \<lparr>expression = [], screenNumbers = ascii ''Error'', previousResult = None\<rparr>
          else
            let formattedResult = formatNumber B result in
            \<lparr>expression = formattedResult, screenNumbers = formattedResult,
             previousResult = Some result\<rparr>)
     else if val = key_backspace then
       (if previousResult s \<noteq> None then
          \<lparr>expression = [], screenNumbers = ascii ''0'', previousResult = None\<rparr>
        else if length (expression s) \<le> 1 then
          s\<lparr>expression := [], screenNumbers := ascii ''0''\<rparr>
        else
          let newExp = butlast (expression s) in
          s\<lparr>expression := newExp,
            screenNumbers := (if newExp = [] then ascii ''0'' else newExp)\<rparr>)
     else if val = ascii ''CE'' then
       \<lparr>expression = [], screenNumbers = ascii ''0'', previousResult = None\<rparr>
     else if val = ascii '','' then
       (if previousResult s \<noteq> None then
          \<lparr>expression = ascii ''0,'', screenNumbers = ascii ''0,'', previousResult = None\<rparr>
        else
          let parts = split_class isOperatorChar (expression s);
              currentNumber = last parts in
          if 44 \<in> set currentNumber then s
          else if expression s = [] \<or> isOperatorChar (last (expression s)) then
            let newExp = expression s @ ascii ''0,'' in
            s\<lparr>expression := newExp, screenNumbers := newExp\<rparr>
          else
            let newExp = expression s @ ascii '','' in
            s\<lparr>expression := newExp, screenNumbers := newExp\<rparr>)
     else
       (case mathOps B (screenNumbers s) val of
          Some (Some result) \<Rightarrow>
            \<lparr>expression = result, screenNumbers = result,
             previousResult = Some (b_parseFloat B result)\<rparr>
        | Some None \<Rightarrow>
            \<lparr>expression = [], screenNumbers = ascii ''Error'', previousResult = None\<rparr>
        | None \<Rightarrow>
            if previousResult s \<noteq> None \<and> list_ex isDigit val then
              \<lparr>expression = val, screenNumbers = val, previousResult = None\<rparr>
            else if val \<in> set binaryOperators \<and> previousResult s \<noteq> None then
              let newExp = screenNumbers s @ val in
              \<lparr>expression = newExp, screenNumbers = newExp, previousResult = None\<rparr>
            else if val \<in> set binaryOperators \<and> expression s \<noteq> []
                    \<and> [last (expression s)] \<in> set binaryOperators then
              let newExp = butlast (expression s) @ val in
              s\<lparr>expression := newExp, screenNumbers := newExp\<rparr>
            else
              let newExp = (if expression s = [] \<and> list_ex isDigit val then val
                            else expression s @ val) in
              \<lparr>expression = newExp,
               screenNumbers = (if newExp = [] then ascii ''0'' else newExp),
               previousResult = None\<rparr>))"

text \<open>A run of keys, one \<open>handleButtonClick\<close> after the other.\<close>

definition press :: "builtins \<Rightarrow> state \<Rightarrow> jsstring list \<Rightarrow> state" where
  "press B s vals = foldl (handleButtonClick B) s vals"

section \<open>The built-ins of ECMAScript\<close>

text \<open>
  The built-ins as the ECMAScript language specification (ECMA-262) defines them, on
  binary64 values. They are not code of the component: the component is proved for
  every \<open>builtins\<close>, and \<open>ecma\<close> gives the runs of keys their values.
\<close>

subsection \<open>Rounding to binary64\<close>

text \<open>Powers of 2 and of 10 with an integer exponent.\<close>

definition pow2 :: "int \<Rightarrow> rat" where
  "pow2 e = (if 0 \<le> e then 2 ^ nat e else 1 / 2 ^ nat (- e))"

definition pow10 :: "int \<Rightarrow> rat" where
  "pow10 e = (if 0 \<le> e then 10 ^ nat e else 1 / 10 ^ nat (- e))"

text \<open>For a positive rational \<open>a\<close>: the integer \<open>d\<close> with \<open>2^d \<le> a < 2^(d+1)\<close>.\<close>

definition ilog2 :: "rat \<Rightarrow> int" where
  "ilog2 a = (let (p, q) = quotient_of a; d = bitlen p - bitlen q in
              if pow2 d \<le> a then d else d - 1)"

text \<open>The decimal digits of an integer that is not negative.\<close>

function decimal :: "int \<Rightarrow> jsstring" where
  "decimal n = (if n < 10 then [48 + n] else decimal (n div 10) @ [48 + n mod 10])"
  by pat_completeness auto
termination
  by (relation "measure nat") auto

declare decimal.simps [simp del]

text \<open>For a positive rational \<open>a\<close>: the integer \<open>n\<close> with \<open>10^(n-1) \<le> a < 10^n\<close>.\<close>

definition decimalExponent :: "rat \<Rightarrow> int" where
  "decimalExponent a = (let (p, q) = quotient_of a;
       d = int (length (decimal p)) - int (length (decimal q)) in
     if pow10 d \<le> a then d + 1 else d)"

definition round_half_even :: "rat \<Rightarrow> int" where
  "round_half_even t = (let f = \<lfloor>t\<rfloor>; d = t - of_int f in
     if d < 1 / 2 then f else if 1 / 2 < d then f + 1 else if even f then f else f + 1)"

text \<open>
  The Number value for a real: the nearest binary64 value, ties to the even significand.
  The spacing of the values around \<open>a\<close> is \<open>2^e\<close>, with \<open>e\<close> at least -1074 (the
  subnormal range); a significand rounded up to \<open>2^53\<close> at the exponent 971 is
  \<open>2^1024\<close>, which is infinite.
\<close>

definition round64 :: "rat \<Rightarrow> jsnum" where
  "round64 q = (if q = 0 then Num 0 else
     let a = \<bar>q\<bar>; e = max (ilog2 a - 52) (- 1074);
         m = round_half_even (a / pow2 e)
     in if 971 < e \<or> (e = 971 \<and> 2 ^ 53 \<le> m) then
          (if q < 0 then NegInfinity else PosInfinity)
        else if m = 0 then (if q < 0 then NegZero else Num 0)
        else Num (if q < 0 then - (of_int m * pow2 e) else of_int m * pow2 e))"

subsection \<open>Arithmetic\<close>

text \<open>
  The operators \<open>+\<close>, \<open>-\<close>, \<open>*\<close> and \<open>/\<close> on Numbers: the special cases of IEEE 754
  for NaN, the infinities and the zeros, and otherwise the exact result rounded.
\<close>

definition signbit :: "jsnum \<Rightarrow> bool" where
  "signbit x = (case x of NegInfinity \<Rightarrow> True | NegZero \<Rightarrow> True | Num r \<Rightarrow> r < 0 | _ \<Rightarrow> False)"

definition value_of :: "jsnum \<Rightarrow> rat" where
  "value_of x = (case x of Num r \<Rightarrow> r | _ \<Rightarrow> 0)"

definition isInfinite :: "jsnum \<Rightarrow> bool" where
  "isInfinite x = (x = PosInfinity \<or> x = NegInfinity)"

definition signed_zero :: "bool \<Rightarrow> jsnum" where
  "signed_zero negative = (if negative then NegZero else Num 0)"

definition signed_infinity :: "bool \<Rightarrow> jsnum" where
  "signed_infinity negative = (if negative then NegInfinity else PosInfinity)"

definition js_multiply :: "jsnum \<Rightarrow> jsnum \<Rightarrow> jsnum" where
  "js_multiply x y =
     (if isNaN x \<or> isNaN y then NaN
      else if isInfinite x \<or> isInfinite y then
        (if is_zero x \<or> is_zero y then NaN else signed_infinity (signbit x \<noteq> signbit y))
      else if is_zero x \<or> is_zero y then signed_zero (signbit x \<noteq> signbit y)
      else round64 (value_of x * value_of y))"

definition js_divide :: "jsnum \<Rightarrow> jsnum \<Rightarrow> jsnum" where
  "js_divide x y =
     (if isNaN x \<or> isNaN y then NaN
      else if isInfinite x then
        (if isInfinite y then NaN else signed_infinity (signbit x \<noteq> signbit y))
      else if isInfinite y then signed_zero (signbit x \<noteq> signbit y)
      else if is_zero y then
        (if is_zero x then NaN else signed_infinity (signbit x \<noteq> signbit y))
      else if is_zero x then signed_zero (signbit x \<noteq> signbit y)
      else round64 (value_of x / value_of y))"

definition js_add :: "jsnum \<Rightarrow> jsnum \<Rightarrow> jsnum" where
  "js_add x y =
     (if isNaN x \<or> isNaN y then NaN
      else if isInfinite x then (if isInfinite y \<and> x \<noteq> y then NaN else x)
      else if isInfinite y then y
      else if is_zero x \<and> is_zero y then signed_zero (signbit x \<and> signbit y)
      else round64 (value_of x + value_of y))"

definition js_subtract :: "jsnum \<Rightarrow> jsnum \<Rightarrow> jsnum" where
  "js_subtract x y = js_add x (negate y)"

text \<open>The integer square root of \<open>y < 4^(Suc i)\<close>, one bit at a time from bit \<open>i\<close> down.\<close>

fun isqrt_bits :: "int \<Rightarrow> int \<Rightarrow> nat \<Rightarrow> int" where
  "isqrt_bits y r 0 = (if (r + 1) * (r + 1) \<le> y then r + 1 else r)"
| "isqrt_bits y r (Suc i) =
     isqrt_bits y (if (r + 2 ^ Suc i) * (r + 2 ^ Suc i) \<le> y then r + 2 ^ Suc i else r) i"

text \<open>
  \<open>Math.sqrt\<close>, correctly rounded as IEEE 754 has it. A positive \<open>r\<close> is scaled by an even
  power of two to an integer \<open>y\<close> with \<open>2^104 \<le> y < 2^106\<close>; its root lies between the
  integers \<open>s\<close> and \<open>s + 1\<close> of \<open>[2^52, 2^53]\<close>, which are binary64 significands, and is
  never halfway between them.
\<close>

definition Math_sqrt :: "jsnum \<Rightarrow> jsnum" where
  "Math_sqrt x = (case x of
      NaN \<Rightarrow> NaN
    | PosInfinity \<Rightarrow> PosInfinity
    | NegInfinity \<Rightarrow> NaN
    | NegZero \<Rightarrow> NegZero
    | Num r \<Rightarrow>
        if r < 0 then NaN
        else if r = 0 then Num 0
        else
          let k = (105 - ilog2 r) div 2;
              y = \<lfloor>r * pow2 (2 * k)\<rfloor>;
              s = isqrt_bits y 0 52;
              m = (if s * s + s < y then s + 1 else s)
          in Num (of_int m * pow2 (- k)))"

subsection \<open>Numbers to strings\<close>

text \<open>
  The candidates with \<open>k\<close> digits for the decimal representation of a positive \<open>x\<close>
  with \<open>10^(n-1) \<le> x < 10^n\<close>: the multiples of \<open>10^(n-k)\<close> next to \<open>x\<close> on either
  side. The result is the digits \<open>s\<close> and the exponent \<open>n\<close> of one whose Number value
  is \<open>x\<close>, the one nearer to \<open>x\<close> if both are (the even one at equal distance).
\<close>

definition digitsOfLength :: "rat \<Rightarrow> int \<Rightarrow> nat \<Rightarrow> (int \<times> int) option" where
  "digitsOfLength x n k =
     (let scale = pow10 (n - int k);
          lo = \<lfloor>x / scale\<rfloor>;
          hi = lo + 1;
          okLo = (round64 (of_int lo * scale) = Num x);
          okHi = (round64 (of_int hi * scale) = Num x);
          up = (if hi = 10 ^ k then (10 ^ (k - 1), n + 1) else (hi, n));
          dLo = x - of_int lo * scale;
          dHi = of_int hi * scale - x
      in if okLo \<and> okHi then
           (if dLo < dHi \<or> (dLo = dHi \<and> even lo) then Some (lo, n) else Some up)
         else if okLo then Some (lo, n)
         else if okHi then Some up
         else None)"

text \<open>The least number of digits, from \<open>k\<close> on, trying \<open>tries\<close> further lengths; 17
  digits tell every binary64 value from its neighbours.\<close>

fun shortestDigits :: "rat \<Rightarrow> int \<Rightarrow> nat \<Rightarrow> nat \<Rightarrow> int \<times> int" where
  "shortestDigits x n k 0 =
     (case digitsOfLength x n k of Some r \<Rightarrow> r | None \<Rightarrow> (\<lfloor>x / pow10 (n - int k)\<rfloor>, n))"
| "shortestDigits x n k (Suc tries) =
     (case digitsOfLength x n k of Some r \<Rightarrow> r | None \<Rightarrow> shortestDigits x n (Suc k) tries)"

text \<open>\<open>Number::toString\<close> (radix 10) of a positive finite Number.\<close>

definition positiveToString :: "rat \<Rightarrow> jsstring" where
  "positiveToString x =
     (let (s, n) = shortestDigits x (decimalExponent x) 1 16;
          digits = decimal s;
          k = int (length digits)
      in if k \<le> n \<and> n \<le> 21 then digits @ replicate (nat (n - k)) 48
         else if 0 < n \<and> n \<le> 21 then take (nat n) digits @ ascii ''.'' @ drop (nat n) digits
         else if - 6 < n \<and> n \<le> 0 then ascii ''0.'' @ replicate (nat (- n)) 48 @ digits
         else
           let e = n - 1;
               exponent = ascii ''e'' @ (if e < 0 then ascii ''-'' else ascii ''+'') @ decimal \<bar>e\<bar>
           in if k = 1 then digits @ exponent
              else take 1 digits @ ascii ''.'' @ drop 1 digits @ exponent)"

definition toString :: "jsnum \<Rightarrow> jsstring" where
  "toString x = (case x of
      NaN \<Rightarrow> ascii ''NaN''
    | PosInfinity \<Rightarrow> ascii ''Infinity''
    | NegInfinity \<Rightarrow> ascii ''-Infinity''
    | NegZero \<Rightarrow> ascii ''0''
    | Num r \<Rightarrow>
        if r = 0 then ascii ''0''
        else if r < 0 then ascii ''-'' @ positiveToString (- r)
        else positiveToString r)"

text \<open>\<open>Number.prototype.toFixed\<close> with \<open>f\<close> fraction digits, \<open>f\<close> at most 100 (beyond,
  it throws a RangeError; the component passes 8).\<close>

definition toFixed :: "jsnum \<Rightarrow> nat \<Rightarrow> jsstring" where
  "toFixed x f =
     (if \<not> isFinite x then toString x
      else
        let r = value_of x;
            sign = (if r < 0 then ascii ''-'' else []);
            a = \<bar>r\<bar>
        in if 10 ^ 21 \<le> a then sign @ toString (Num a)
           else
             let n = \<lfloor>a * 10 ^ f + 1 / 2\<rfloor>;
                 m = decimal n;
                 padded = (if length m \<le> f then replicate (f + 1 - length m) 48 @ m else m);
                 k = length padded
             in if f = 0 then sign @ m
                else sign @ take (k - f) padded @ ascii ''.'' @ drop (k - f) padded)"

subsection \<open>Strings to numbers\<close>

definition digitsValue :: "jsstring \<Rightarrow> int" where
  "digitsValue ds = foldl (\<lambda>a c. 10 * a + (c - 48)) 0 ds"

text \<open>The exponent part \<open>e\<close> or \<open>E\<close>, an optional sign and digits, if the text starts
  with one: its value and the text after it.\<close>

definition scanExponent :: "jsstring \<Rightarrow> int \<times> jsstring" where
  "scanExponent cs =
     (case cs of
        [] \<Rightarrow> (0, cs)
      | c # r \<Rightarrow>
          if c = 101 \<or> c = 69 then
            (let negative = (r \<noteq> [] \<and> hd r = 45);
                 signed = (r \<noteq> [] \<and> (hd r = 45 \<or> hd r = 43));
                 r' = (if signed then tl r else r);
                 ds = takeWhile isDigit r'
             in if ds = [] then (0, cs)
                else ((if negative then - digitsValue ds else digitsValue ds),
                      dropWhile isDigit r'))
          else (0, cs))"

text \<open>The longest prefix that is a StrUnsignedDecimalLiteral other than \<open>Infinity\<close>:
  its exact value and the text after it.\<close>

definition scanDecimal :: "jsstring \<Rightarrow> (rat \<times> jsstring) option" where
  "scanDecimal cs =
     (let ip = takeWhile isDigit cs;
          r1 = dropWhile isDigit cs;
          dotted = (r1 \<noteq> [] \<and> hd r1 = 46);
          fp = (if dotted then takeWhile isDigit (tl r1) else []);
          r2 = (if dotted then dropWhile isDigit (tl r1) else r1)
      in if ip = [] \<and> fp = [] then None
         else
           let (e, r3) = scanExponent r2 in
           Some (of_int (digitsValue (ip @ fp)) * pow10 (e - int (length fp)), r3))"

definition signedNumber :: "bool \<Rightarrow> rat \<Rightarrow> jsnum" where
  "signedNumber negative r =
     (if r = 0 then signed_zero negative else round64 (if negative then - r else r))"

definition startsWith :: "jsstring \<Rightarrow> jsstring \<Rightarrow> bool" where
  "startsWith s p = (take (length p) s = p)"

text \<open>The global \<open>parseFloat\<close>: leading white space is skipped, and the longest prefix
  that is a StrDecimalLiteral is read; NaN when there is none.\<close>

definition parseFloat :: "jsstring \<Rightarrow> jsnum" where
  "parseFloat s =
     (let t = dropWhile isWhiteSpace s;
          negative = (t \<noteq> [] \<and> hd t = 45);
          u = (if t \<noteq> [] \<and> (hd t = 45 \<or> hd t = 43) then tl t else t)
      in if startsWith u (ascii ''Infinity'') then signed_infinity negative
         else (case scanDecimal u of
                 None \<Rightarrow> NaN
               | Some (r, rest) \<Rightarrow> signedNumber negative r))"

text \<open>\<open>Number\<close> applied to a string (StringToNumber), for decimal text: the whole
  trimmed string is a StrDecimalLiteral or empty. The prefixes \<open>0x\<close>, \<open>0o\<close> and \<open>0b\<close> of
  the other literals do not occur in what \<open>toFixed\<close> returns, and are not modelled.\<close>

definition Number_of :: "jsstring \<Rightarrow> jsnum" where
  "Number_of s =
     (let t = trim s;
          negative = (t \<noteq> [] \<and> hd t = 45);
          u = (if t \<noteq> [] \<and> (hd t = 45 \<or> hd t = 43) then tl t else t)
      in if t = [] then Num 0
         else if u = ascii ''Infinity'' then signed_infinity negative
         else (case scanDecimal u of
                 Some (r, []) \<Rightarrow> signedNumber negative r
               | _ \<Rightarrow> NaN))"

subsection \<open>Running the text of an arithmetic expression\<close>

text \<open>
  Comments are white space. A line comment runs to the end of the text, which has one
  line; a block comment that is not closed is a SyntaxError. \<open>inside\<close> says whether the
  text starts inside a block comment.
\<close>

fun uncomment :: "bool \<Rightarrow> jsstring \<Rightarrow> jsstring option" where
  "uncomment inside [] = (if inside then None else Some [])"
| "uncomment inside [c] = (if inside then None else Some [c])"
| "uncomment inside (c # d # cs) =
     (if inside then
        (if c = 42 \<and> d = 47 then uncomment False cs else uncomment True (d # cs))
      else if c = 47 \<and> d = 47 then Some []
      else if c = 47 \<and> d = 42 then map_option (Cons 32) (uncomment True cs)
      else map_option (Cons c) (uncomment False (d # cs)))"

datatype token = TNum jsnum | TPlus | TMinus | TTimes | TDivide | TOpen | TClose

text \<open>
  The value of a run of digits and dots, when the run is one DecimalLiteral: digits with
  an optional dot and fraction, or a dot and a fraction. In strict mode code an integer
  part of several digits does not start with 0. Any other run is a SyntaxError (two
  literals side by side, or a dot that is no part of a literal).
\<close>

definition literalValue :: "jsstring \<Rightarrow> rat option" where
  "literalValue run =
     (let ip = takeWhile isDigit run;
          r = dropWhile isDigit run;
          fp = (if r = [] then [] else tl r)
      in if \<not> list_all isDigit fp then None
         else if ip = [] \<and> fp = [] then None
         else if 1 < length ip \<and> hd ip = 48 then None
         else Some (of_int (digitsValue (ip @ fp)) / 10 ^ length fp))"

definition literalToken :: "jsstring \<Rightarrow> token list option" where
  "literalToken run =
     (if run = [] then Some []
      else (case literalValue run of None \<Rightarrow> None | Some r \<Rightarrow> Some [TNum (round64 r)]))"

text \<open>
  The punctuator that starts with the code unit \<open>c\<close>, \<open>cs\<close> being the text after it. The
  tokens \<open>++\<close> and \<open>--\<close> need an operand that can be assigned to, and the text has none.
  The operator \<open>**\<close>, whose result ECMAScript leaves to the implementation, is not
  modelled: text with two adjacent asterisks is taken as failing. No run of keys writes
  such text (\<open>no_exponentiation\<close> below): an operator key replaces an operator at the end
  of the expression.
\<close>

definition punctuator :: "int \<Rightarrow> jsstring \<Rightarrow> token list option" where
  "punctuator c cs =
     (if c = 32 then Some []
      else if c = 43 then (if cs \<noteq> [] \<and> hd cs = 43 then None else Some [TPlus])
      else if c = 45 then (if cs \<noteq> [] \<and> hd cs = 45 then None else Some [TMinus])
      else if c = 42 then (if cs \<noteq> [] \<and> hd cs = 42 then None else Some [TTimes])
      else if c = 47 then Some [TDivide]
      else if c = 40 then Some [TOpen]
      else if c = 41 then Some [TClose]
      else None)"

definition both :: "'a list option \<Rightarrow> 'a list option \<Rightarrow> 'a list option" where
  "both a b = (case a of None \<Rightarrow> None
               | Some x \<Rightarrow> (case b of None \<Rightarrow> None | Some y \<Rightarrow> Some (x @ y)))"

text \<open>The tokens of a text without comments; \<open>run\<close> is the run of digits and dots read
  so far.\<close>

fun tokens :: "jsstring \<Rightarrow> jsstring \<Rightarrow> token list option" where
  "tokens run [] = literalToken run"
| "tokens run (c # cs) =
     (if isDigit c \<or> c = 46 then tokens (run @ [c]) cs
      else both (literalToken run) (both (punctuator c cs) (tokens [] cs)))"

text \<open>
  Evaluation with an operator stack and a value stack. Unary operators bind tighter than
  \<open>*\<close> and \<open>/\<close>, which bind tighter than \<open>+\<close> and \<open>-\<close>; a binary operator first applies
  the stacked operators that bind at least as tightly, so operators of one precedence
  apply from left to right.
\<close>

datatype operator = Add | Sub | Mul | Div | UnaryPlus | UnaryMinus | Paren

fun precedence :: "operator \<Rightarrow> nat" where
  "precedence Add = 1"
| "precedence Sub = 1"
| "precedence Mul = 2"
| "precedence Div = 2"
| "precedence UnaryPlus = 3"
| "precedence UnaryMinus = 3"
| "precedence Paren = 0"

fun applyOperator :: "operator \<Rightarrow> jsnum list \<Rightarrow> jsnum list option" where
  "applyOperator Add (y # x # vs) = Some (js_add x y # vs)"
| "applyOperator Sub (y # x # vs) = Some (js_subtract x y # vs)"
| "applyOperator Mul (y # x # vs) = Some (js_multiply x y # vs)"
| "applyOperator Div (y # x # vs) = Some (js_divide x y # vs)"
| "applyOperator UnaryPlus (x # vs) = Some (x # vs)"
| "applyOperator UnaryMinus (x # vs) = Some (negate x # vs)"
| "applyOperator _ _ = None"

text \<open>Apply the stacked operators of precedence at least \<open>p\<close>, down to a parenthesis.\<close>

fun reduce :: "nat \<Rightarrow> operator list \<Rightarrow> jsnum list \<Rightarrow> (operator list \<times> jsnum list) option" where
  "reduce p [] vs = Some ([], vs)"
| "reduce p (Paren # ops) vs = Some (Paren # ops, vs)"
| "reduce p (f # ops) vs =
     (if p \<le> precedence f then
        (case applyOperator f vs of None \<Rightarrow> None | Some vs' \<Rightarrow> reduce p ops vs')
      else Some (f # ops, vs))"

definition binary :: "operator \<Rightarrow> operator list \<Rightarrow> jsnum list \<Rightarrow> (operator list \<times> jsnum list) option" where
  "binary f ops vs =
     (case reduce (precedence f) ops vs of
        None \<Rightarrow> None
      | Some (ops', vs') \<Rightarrow> Some (f # ops', vs'))"

text \<open>
  \<open>operand\<close> says whether an operand is expected next. Where an operand is expected,
  \<open>+\<close> and \<open>-\<close> are unary, and \<open>*\<close>, \<open>/\<close> and \<open>)\<close> are errors (a \<open>/\<close> there starts a
  regular expression literal in JavaScript, and what is computed from one is never a
  Number other than NaN). After an operand, a number is a SyntaxError and \<open>(\<close> calls a
  Number, a TypeError.
\<close>

fun shunt :: "token list \<Rightarrow> bool \<Rightarrow> operator list \<Rightarrow> jsnum list \<Rightarrow> jsnum option" where
  "shunt [] operand ops vs =
     (if operand then None
      else (case reduce 1 ops vs of Some ([], [v]) \<Rightarrow> Some v | _ \<Rightarrow> None))"
| "shunt (TNum v # ts) operand ops vs =
     (if operand then shunt ts False ops (v # vs) else None)"
| "shunt (TPlus # ts) operand ops vs =
     (if operand then shunt ts True (UnaryPlus # ops) vs
      else (case binary Add ops vs of None \<Rightarrow> None | Some (ops', vs') \<Rightarrow> shunt ts True ops' vs'))"
| "shunt (TMinus # ts) operand ops vs =
     (if operand then shunt ts True (UnaryMinus # ops) vs
      else (case binary Sub ops vs of None \<Rightarrow> None | Some (ops', vs') \<Rightarrow> shunt ts True ops' vs'))"
| "shunt (TTimes # ts) operand ops vs =
     (if operand then None
      else (case binary Mul ops vs of None \<Rightarrow> None | Some (ops', vs') \<Rightarrow> shunt ts True ops' vs'))"
| "shunt (TDivide # ts) operand ops vs =
     (if operand then None
      else (case binary Div ops vs of None \<Rightarrow> None | Some (ops', vs') \<Rightarrow> shunt ts True ops' vs'))"
| "shunt (TOpen # ts) operand ops vs =
     (if operand then shunt ts True (Paren # ops) vs else None)"
| "shunt (TClose # ts) operand ops vs =
     (if operand then None
      else (case reduce 1 ops vs of
              Some (Paren # ops', vs') \<Rightarrow> shunt ts False ops' vs'
            | _ \<Rightarrow> None))"

text \<open>
  \<open>Function(body)()\<close> for the bodies \<open>safeEval\<close> builds: a strict mode directive and
  the return of one parenthesised expression.
\<close>

definition callFunction :: "jsstring \<Rightarrow> jsnum option" where
  "callFunction body =
     (let directive = [34] @ ascii ''use strict'' @ [34] @ ascii ''; return '' in
      if \<not> startsWith body directive then None
      else (case uncomment False (drop (length directive) body) of
              None \<Rightarrow> None
            | Some text \<Rightarrow>
                (case tokens [] text of
                   None \<Rightarrow> None
                 | Some ts \<Rightarrow> shunt ts True [] [])))"

definition ecma :: builtins where
  "ecma = \<lparr>b_parseFloat = parseFloat, b_toFixed = toFixed, b_Number = Number_of,
            b_toString = toString, b_Function = callFunction,
            b_divide = js_divide, b_multiply = js_multiply, b_sqrt = Math_sqrt\<rparr>"

section \<open>Notions of the specification\<close>

text \<open>The invariant of the data model: when a previous result is recorded, the expression
  and the display are one string.\<close>

definition resultShown :: "state \<Rightarrow> bool" where
  "resultShown s = (previousResult s = None \<or> expression s = screenNumbers s)"

text \<open>The current numeric run: the expression scanned backward from its end to the most
  recent operator.\<close>

definition currentRun :: "jsstring \<Rightarrow> jsstring" where
  "currentRun e = rev (takeWhile (\<lambda>c. \<not> isOperatorChar c) (rev e))"

text \<open>The state after a unary operation that succeeds with the formatted string
  \<open>result\<close>: the previous result is the number parsed from that string.\<close>

definition resultState :: "builtins \<Rightarrow> jsstring \<Rightarrow> state" where
  "resultState B result =
     \<lparr>expression = result, screenNumbers = result,
      previousResult = Some (b_parseFloat B result)\<rparr>"

text \<open>The code units of the decimal text of a finite Number: digits, signs, the dot and
  the exponent mark \<open>e\<close>.\<close>

definition numberChar :: "int \<Rightarrow> bool" where
  "numberChar c = (isDigit c \<or> c = 43 \<or> c = 45 \<or> c = 46 \<or> c = 101)"

text \<open>No two operator characters side by side.\<close>

fun spaced :: "jsstring \<Rightarrow> bool" where
  "spaced [] = True"
| "spaced [c] = True"
| "spaced (c # d # cs) = (\<not> (isOperatorChar c \<and> isOperatorChar d) \<and> spaced (d # cs))"

text \<open>A code unit that is neither white space nor the asterisk.\<close>

definition plainChar :: "int \<Rightarrow> bool" where
  "plainChar c = (\<not> isWhiteSpace c \<and> c \<noteq> 42)"

text \<open>
  What the specification takes for granted of the engine's number printing: the text
  \<open>toString\<close> returns is not empty, holds no white space, no asterisk and no comma, has no
  two operator characters side by side and does not end in one.
\<close>

definition printable :: "builtins \<Rightarrow> bool" where
  "printable B = (\<forall>x. b_toString B x \<noteq> []
      \<and> list_all (\<lambda>c. plainChar c \<and> c \<noteq> 44) (b_toString B x)
      \<and> spaced (b_toString B x)
      \<and> \<not> isOperatorChar (last (b_toString B x)))"

text \<open>
  What every run of keys keeps: \<open>resultShown\<close>; an expression without white space and
  asterisks and without two operator characters side by side; and, while a previous
  result is recorded, an expression that holds no comma, is not empty and does not end
  in an operator character.
\<close>

definition tidy :: "state \<Rightarrow> bool" where
  "tidy s = (resultShown s
     \<and> list_all plainChar (expression s)
     \<and> spaced (expression s)
     \<and> (previousResult s = None
         \<or> (44 \<notin> set (expression s) \<and> expression s \<noteq> []
             \<and> \<not> isOperatorChar (last (expression s)))))"

text \<open>An expression that ends in exactly one operator character.\<close>

definition endsInOneOperator :: "jsstring \<Rightarrow> bool" where
  "endsInOneOperator e = (e \<noteq> [] \<and> isOperatorChar (last e)
     \<and> (butlast e = [] \<or> \<not> isOperatorChar (last (butlast e))))"

text \<open>Two code units \<open>c\<close> side by side.\<close>

fun adjacent :: "int \<Rightarrow> jsstring \<Rightarrow> bool" where
  "adjacent c [] = False"
| "adjacent c [a] = False"
| "adjacent c (a # b # cs) = ((a = c \<and> b = c) \<or> adjacent c (b # cs))"

text \<open>The keys of \<open>mathOps\<close>.\<close>

definition unaryKeys :: "jsstring list" where
  "unaryKeys = [ascii ''%'', ascii ''+/-'', key_reciprocal, key_square, key_sqrt]"

text \<open>The keys that \<open>handleButtonClick\<close> tests before it looks a key up in \<open>mathOps\<close>.\<close>

definition controlKeys :: "jsstring list" where
  "controlKeys = [ascii ''C'', ascii ''='', key_backspace, ascii ''CE'', ascii '','']"

lemmas key_defs = ascii_def key_backspace_def key_reciprocal_def key_square_def key_sqrt_def
  key_divide_def key_times_def

section \<open>The branches of handleButtonClick\<close>

lemma hbc_clear: "handleButtonClick B s (ascii ''C'') = initial_state"
  by (simp add: handleButtonClick_def initial_state_def)

lemma hbc_clear_entry: "handleButtonClick B s (ascii ''CE'') = initial_state"
  by (simp add: handleButtonClick_def initial_state_def key_defs)

lemma hbc_equals:
  "handleButtonClick B s (ascii ''='') =
     (if trim (expression s) = [] then s
      else if \<not> isFinite (safeEval B (expression s)) then error_state
      else \<lparr>expression = formatNumber B (safeEval B (expression s)),
            screenNumbers = formatNumber B (safeEval B (expression s)),
            previousResult = Some (safeEval B (expression s))\<rparr>)"
  by (simp add: handleButtonClick_def error_state_def key_defs Let_def isNaN_def isFinite_def)

lemma hbc_backspace:
  "handleButtonClick B s key_backspace =
     (if previousResult s \<noteq> None then initial_state
      else if length (expression s) \<le> 1 then s\<lparr>expression := [], screenNumbers := ascii ''0''\<rparr>
      else s\<lparr>expression := butlast (expression s),
             screenNumbers := (if butlast (expression s) = [] then ascii ''0''
                               else butlast (expression s))\<rparr>)"
  by (simp add: handleButtonClick_def initial_state_def key_defs Let_def)

lemma hbc_comma:
  "handleButtonClick B s (ascii '','') =
     (if previousResult s \<noteq> None then
        \<lparr>expression = ascii ''0,'', screenNumbers = ascii ''0,'', previousResult = None\<rparr>
      else if 44 \<in> set (last (split_class isOperatorChar (expression s))) then s
      else if expression s = [] \<or> isOperatorChar (last (expression s)) then
        s\<lparr>expression := expression s @ ascii ''0,'', screenNumbers := expression s @ ascii ''0,''\<rparr>
      else s\<lparr>expression := expression s @ ascii '','', screenNumbers := expression s @ ascii '',''\<rparr>)"
  by (simp add: handleButtonClick_def key_defs Let_def)

lemma hbc_result:
  assumes "val \<notin> set controlKeys" and "mathOps B (screenNumbers s) val = Some (Some result)"
  shows "handleButtonClick B s val =
     \<lparr>expression = result, screenNumbers = result, previousResult = Some (b_parseFloat B result)\<rparr>"
  using assms by (simp add: handleButtonClick_def controlKeys_def)

lemma hbc_null:
  assumes "val \<notin> set controlKeys" and "mathOps B (screenNumbers s) val = Some None"
  shows "handleButtonClick B s val = error_state"
  using assms by (simp add: handleButtonClick_def controlKeys_def error_state_def)

lemma hbc_plain:
  assumes "val \<notin> set controlKeys" and "mathOps B (screenNumbers s) val = None"
  shows "handleButtonClick B s val =
     (if previousResult s \<noteq> None \<and> list_ex isDigit val then
        \<lparr>expression = val, screenNumbers = val, previousResult = None\<rparr>
      else if val \<in> set binaryOperators \<and> previousResult s \<noteq> None then
        \<lparr>expression = screenNumbers s @ val, screenNumbers = screenNumbers s @ val,
         previousResult = None\<rparr>
      else if val \<in> set binaryOperators \<and> expression s \<noteq> []
              \<and> [last (expression s)] \<in> set binaryOperators then
        s\<lparr>expression := butlast (expression s) @ val,
          screenNumbers := butlast (expression s) @ val\<rparr>
      else if expression s = [] \<and> list_ex isDigit val then
        \<lparr>expression = val, screenNumbers = val, previousResult = None\<rparr>
      else if expression s = [] \<and> val = [] then
        \<lparr>expression = [], screenNumbers = ascii ''0'', previousResult = None\<rparr>
      else
        \<lparr>expression = expression s @ val, screenNumbers = expression s @ val,
         previousResult = None\<rparr>)"
proof -
  have digit: "list_ex isDigit val \<Longrightarrow> val \<noteq> []" by auto
  show ?thesis
    using assms digit
    by (cases "previousResult s"; cases "expression s = []"; cases "val = []")
       (simp_all add: handleButtonClick_def controlKeys_def Let_def)
qed

lemma mathOps_keys:
  "mathOps B scr val \<noteq> None \<longleftrightarrow>
     val \<in> {ascii ''%'', ascii ''+/-'', key_reciprocal, key_square, key_sqrt}"
  by (simp add: mathOps_def Let_def)

lemma split_class_not_empty: "split_class p e \<noteq> []"
  by (induction e) (auto split: list.splits)

lemma split_class_single:
  "split_class p e = [part] \<Longrightarrow> part = e \<and> (\<forall>c\<in>set e. \<not> p c)"
proof (induction e arbitrary: part)
  case Nil
  then show ?case by simp
next
  case (Cons c cs)
  then show ?case
    using split_class_not_empty [of p cs]
    by (auto split: if_splits list.splits)
qed

lemma last_split_class:
  "last (split_class p e) = rev (takeWhile (\<lambda>c. \<not> p c) (rev e))"
proof (induction e)
  case Nil
  show ?case by simp
next
  case (Cons c cs)
  obtain part parts where sp: "split_class p cs = part # parts"
    using split_class_not_empty [of p cs] by (cases "split_class p cs") auto
  show ?case
  proof (cases "parts = []")
    case True
    with sp have all: "part = cs \<and> (\<forall>x\<in>set cs. \<not> p x)"
      using split_class_single [of p cs part] by simp
    then have tw: "takeWhile (\<lambda>c. \<not> p c) (rev cs) = rev cs"
      by (simp add: takeWhile_eq_all_conv)
    show ?thesis
      using sp True all tw by (simp add: takeWhile_append)
  next
    case False
    then have l: "last (split_class p cs) = last parts" using sp by simp
    have ex: "\<exists>x\<in>set cs. p x"
    proof (rule ccontr)
      assume "\<not> (\<exists>x\<in>set cs. p x)"
      then have "takeWhile (\<lambda>c. \<not> p c) (rev cs) = rev cs"
        by (simp add: takeWhile_eq_all_conv)
      with Cons l have "last parts = cs" by simp
      moreover have "split_class p cs = [cs]" using \<open>\<not> (\<exists>x\<in>set cs. p x)\<close>
        by (induction cs) auto
      ultimately show False using sp False by simp
    qed
    then have "takeWhile (\<lambda>c. \<not> p c) (rev cs @ [c]) = takeWhile (\<lambda>c. \<not> p c) (rev cs)"
      by (auto simp: takeWhile_append)
    then show ?thesis
      using sp False Cons l by (auto split: list.splits)
  qed
qed

lemma mathOps_operator: "val \<in> set binaryOperators \<Longrightarrow> mathOps B scr val = None"
  by (auto simp: binaryOperators_def mathOps_def key_defs)

lemma operator_not_control: "val \<in> set binaryOperators \<Longrightarrow> val \<notin> set controlKeys"
  by (auto simp: binaryOperators_def controlKeys_def key_defs)

lemma operator_no_digit: "val \<in> set binaryOperators \<Longrightarrow> \<not> list_ex isDigit val"
  by (auto simp: binaryOperators_def key_defs isDigit_def)

lemma operator_single: "val \<in> set binaryOperators \<Longrightarrow> \<exists>c. val = [c]"
  by (auto simp: binaryOperators_def key_defs)

lemma hbc_operator:
  assumes "val \<in> set binaryOperators"
  shows "handleButtonClick B s val =
     (if previousResult s \<noteq> None then
        \<lparr>expression = screenNumbers s @ val, screenNumbers = screenNumbers s @ val,
         previousResult = None\<rparr>
      else if expression s \<noteq> [] \<and> [last (expression s)] \<in> set binaryOperators then
        s\<lparr>expression := butlast (expression s) @ val,
          screenNumbers := butlast (expression s) @ val\<rparr>
      else
        \<lparr>expression = expression s @ val, screenNumbers = expression s @ val,
         previousResult = None\<rparr>)"
proof -
  have "val \<noteq> []" using operator_single [OF assms] by auto
  then show ?thesis
    using assms operator_no_digit [OF assms]
    by (simp add: hbc_plain [OF operator_not_control [OF assms] mathOps_operator [OF assms]])
qed

lemma hbc_resultShown:
  "handleButtonClick B s val = s \<or> resultShown (handleButtonClick B s val)"
proof (cases "val \<in> set controlKeys")
  case True
  then consider "val = ascii ''C''" | "val = ascii ''=''" | "val = key_backspace"
    | "val = ascii ''CE''" | "val = ascii '',''"
    by (auto simp: controlKeys_def)
  then show ?thesis
  proof cases
    case 1 then show ?thesis by (simp add: hbc_clear resultShown_def initial_state_def)
  next
    case 2 then show ?thesis by (simp add: hbc_equals resultShown_def error_state_def)
  next
    case 3 then show ?thesis by (simp add: hbc_backspace resultShown_def initial_state_def)
  next
    case 4 then show ?thesis by (simp add: hbc_clear_entry resultShown_def initial_state_def)
  next
    case 5 then show ?thesis by (simp add: hbc_comma resultShown_def)
  qed
next
  case False
  show ?thesis
  proof (cases "mathOps B (screenNumbers s) val")
    case None
    show ?thesis by (simp add: hbc_plain [OF False None] resultShown_def)
  next
    case (Some r)
    then show ?thesis
      by (cases r) (simp_all add: hbc_null [OF False] hbc_result [OF False]
          resultShown_def error_state_def)
  qed
qed

lemma press_snoc: "press B s (vals @ [val]) = handleButtonClick B (press B s vals) val"
  by (simp add: press_def)

lemma unary_not_control:
  "val \<in> {ascii ''%'', ascii ''+/-'', key_reciprocal, key_square, key_sqrt}
   \<Longrightarrow> val \<notin> set controlKeys"
  by (auto simp: controlKeys_def key_defs)

lemma hbc_mathOps:
  assumes "val \<in> {ascii ''%'', ascii ''+/-'', key_reciprocal, key_square, key_sqrt}"
  shows "handleButtonClick B s val =
     (case the (mathOps B (screenNumbers s) val) of
        Some result \<Rightarrow> resultState B result
      | None \<Rightarrow> error_state)"
proof -
  obtain r where r: "mathOps B (screenNumbers s) val = Some r"
    using assms mathOps_keys [of B "screenNumbers s" val] by auto
  show ?thesis
    using r hbc_null [OF unary_not_control [OF assms], of B s]
      hbc_result [OF unary_not_control [OF assms], of B s]
    by (cases r) (simp_all add: resultState_def)
qed

lemma ecma_parse_0: "b_parseFloat ecma (ascii ''0'') = Num 0"
  by code_simp

lemma ecma_parse_4: "b_parseFloat ecma (ascii ''4'') = Num 4"
  by code_simp

lemma ecma_parse_quarter: "b_parseFloat ecma (ascii ''0.25'') = Num (1 / 4)"
  by code_simp

lemma ecma_format_quarter: "formatNumber ecma (b_divide ecma (Num 1) (Num 4)) = ascii ''0.25''"
  by code_simp

section \<open>What the built-ins of ECMAScript print\<close>

lemma decimal_not_empty: "decimal n \<noteq> []"
  by (subst decimal.simps) simp

lemma decimal_digits: "0 \<le> n \<Longrightarrow> list_all isDigit (decimal n)"
proof (induction n rule: decimal.induct)
  case (1 n)
  show ?case
  proof (cases "n < 10")
    case True
    with 1 show ?thesis by (subst decimal.simps) (simp add: isDigit_def)
  next
    case False
    then have "list_all isDigit (decimal (n div 10))" using 1 by simp
    moreover have "isDigit (48 + n mod 10)" by (simp add: isDigit_def)
    ultimately show ?thesis using False by (subst decimal.simps) simp
  qed
qed

lemma pow10_positive: "0 < pow10 e"
  by (simp add: pow10_def)

lemma digitsOfLength_nonneg:
  assumes "0 < x" and "digitsOfLength x n k = Some (s, m)"
  shows "0 \<le> s"
proof -
  have "0 \<le> x / pow10 (n - int k)" using assms(1) pow10_positive [of "n - int k"] by simp
  then have lo: "0 \<le> \<lfloor>x / pow10 (n - int k)\<rfloor>" by simp
  have p: "(0::int) \<le> 10 ^ (k - 1)" by simp
  show ?thesis
    using assms(2) lo p
    by (auto simp: digitsOfLength_def Let_def split: if_splits)
qed

lemma shortestDigits_nonneg:
  "0 < x \<Longrightarrow> shortestDigits x n k tries = (s, m) \<Longrightarrow> 0 \<le> s"
proof (induction tries arbitrary: k)
  case 0
  have "0 \<le> x / pow10 (n - int k)" using 0(1) pow10_positive [of "n - int k"] by simp
  then have "0 \<le> \<lfloor>x / pow10 (n - int k)\<rfloor>" by simp
  then show ?case
    using 0 digitsOfLength_nonneg [of x n k]
    by (auto split: option.splits)
next
  case (Suc tries)
  then show ?case
    using digitsOfLength_nonneg [of x n k]
    by (auto split: option.splits)
qed

lemma numberChar_digits: "list_all isDigit ds \<Longrightarrow> list_all numberChar ds"
  by (induction ds) (auto simp: numberChar_def)

lemma list_all_take_drop:
  "list_all P ds \<Longrightarrow> list_all P (take i ds) \<and> list_all P (drop i ds)"
  by (auto simp: list_all_iff dest: in_set_takeD in_set_dropD)

lemma positiveToString_chars:
  assumes "0 < x"
  shows "list_all numberChar (positiveToString x)"
proof -
  obtain s n where sn: "shortestDigits x (decimalExponent x) 1 16 = (s, n)"
    by (cases "shortestDigits x (decimalExponent x) 1 16")
  have s: "0 \<le> s" using shortestDigits_nonneg [OF assms sn] .
  have ds: "list_all numberChar (decimal s)"
    using decimal_digits [OF s] numberChar_digits by blast
  have es: "list_all numberChar (decimal \<bar>n - 1\<bar>)"
    using decimal_digits [of "\<bar>n - 1\<bar>"] numberChar_digits by simp
  have td: "list_all numberChar (take i (decimal s))" "list_all numberChar (drop i (decimal s))" for i
    using list_all_take_drop [OF ds] by simp_all
  have zs: "list_all numberChar (replicate j 48)" for j
    by (simp add: list_all_iff numberChar_def isDigit_def)
  show ?thesis
    using sn ds es td zs
    by (simp add: positiveToString_def Let_def ascii_def numberChar_def isDigit_def)
qed

lemma positiveToString_not_empty: "positiveToString x \<noteq> []"
proof -
  obtain s n where sn: "shortestDigits x (decimalExponent x) 1 16 = (s, n)"
    by (cases "shortestDigits x (decimalExponent x) 1 16")
  show ?thesis
    using sn decimal_not_empty [of s]
    by (simp add: positiveToString_def Let_def ascii_def)
qed

lemma spaced_Cons:
  "spaced (c # cs) \<longleftrightarrow>
     spaced cs \<and> (cs = [] \<or> \<not> (isOperatorChar c \<and> isOperatorChar (hd cs)))"
  by (cases cs) auto

lemma spaced_append:
  "spaced (xs @ ys) \<longleftrightarrow>
     spaced xs \<and> spaced ys
     \<and> (xs = [] \<or> ys = [] \<or> \<not> (isOperatorChar (last xs) \<and> isOperatorChar (hd ys)))"
proof (induction xs rule: spaced.induct)
  case 1
  then show ?case by simp
next
  case (2 c)
  then show ?case by (cases ys) auto
next
  case (3 c d cs)
  then show ?case by auto
qed

lemma spaced_plain: "list_all (\<lambda>c. \<not> isOperatorChar c) xs \<Longrightarrow> spaced xs"
  by (induction xs rule: spaced.induct) auto

lemma spaced_butlast: "spaced xs \<Longrightarrow> spaced (butlast xs)"
  by (induction xs rule: spaced.induct) (auto split: if_splits)

lemma spaced_last_butlast:
  "spaced xs \<Longrightarrow> xs \<noteq> [] \<Longrightarrow> isOperatorChar (last xs) \<Longrightarrow> butlast xs \<noteq> []
   \<Longrightarrow> \<not> isOperatorChar (last (butlast xs))"
  by (induction xs rule: spaced.induct) (auto split: if_splits)

lemma digit_not_operator: "isDigit c \<Longrightarrow> \<not> isOperatorChar c"
  by (auto simp: isDigit_def isOperatorChar_def)

lemma digits_not_operator: "list_all isDigit ds \<Longrightarrow> list_all (\<lambda>c. \<not> isOperatorChar c) ds"
  by (simp add: list_all_iff digit_not_operator)

text \<open>The shape of the text of a positive Number: text without operator characters that
  starts and ends with a digit or a dot, or such text, a sign and digits.\<close>

lemma positiveToString_shape:
  assumes "0 < x"
  shows "\<exists>u v. u \<noteq> [] \<and> list_all (\<lambda>c. \<not> isOperatorChar c) u
           \<and> list_all isDigit v
           \<and> (positiveToString x = u \<or>
               (v \<noteq> [] \<and> (positiveToString x = u @ [43] @ v \<or> positiveToString x = u @ [45] @ v)))"
proof -
  obtain s n where sn: "shortestDigits x (decimalExponent x) 1 16 = (s, n)"
    by (cases "shortestDigits x (decimalExponent x) 1 16")
  have s: "0 \<le> s" using shortestDigits_nonneg [OF assms sn] .
  let ?d = "decimal s"
  have dd: "list_all isDigit ?d" using decimal_digits [OF s] .
  have dn: "?d \<noteq> []" using decimal_not_empty .
  have d: "list_all (\<lambda>c. \<not> isOperatorChar c) ?d" using digits_not_operator [OF dd] .
  have td: "list_all (\<lambda>c. \<not> isOperatorChar c) (take i ?d)"
    "list_all (\<lambda>c. \<not> isOperatorChar c) (drop i ?d)" for i
    using list_all_take_drop [OF d] by simp_all
  have zs: "list_all (\<lambda>c. \<not> isOperatorChar c) (replicate j 48)" for j
    by (simp add: list_all_iff isOperatorChar_def)
  have ed: "list_all isDigit (decimal \<bar>n - 1\<bar>)" using decimal_digits [of "\<bar>n - 1\<bar>"] by simp
  have en: "decimal \<bar>n - 1\<bar> \<noteq> []" using decimal_not_empty .
  have dot: "\<not> isOperatorChar 46" "\<not> isOperatorChar 101" "\<not> isOperatorChar 48"
    by (simp_all add: isOperatorChar_def)
  have k: "1 \<le> int (length ?d)" using dn by (cases ?d) simp_all
  consider (a) "int (length ?d) \<le> n \<and> n \<le> 21"
    | (b) "\<not> int (length ?d) \<le> n" "0 < n" "n \<le> 21"
    | (c) "- 6 < n" "n \<le> 0"
    | (d) "21 < n" | (e) "n \<le> - 6"
    by linarith
  then show ?thesis
  proof cases
    case a
    have "positiveToString x = ?d @ replicate (nat (n - int (length ?d))) 48"
      using sn a by (simp add: positiveToString_def Let_def)
    then show ?thesis using d dn zs
      by (intro exI [of _ "?d @ replicate (nat (n - int (length ?d))) 48"] exI [of _ "[]"]) simp
  next
    case b
    have "positiveToString x = take (nat n) ?d @ [46] @ drop (nat n) ?d"
      using sn b by (simp add: positiveToString_def Let_def ascii_def)
    then show ?thesis using td dot
      by (intro exI [of _ "take (nat n) ?d @ [46] @ drop (nat n) ?d"] exI [of _ "[]"]) simp
  next
    case c
    have "positiveToString x = [48, 46] @ replicate (nat (- n)) 48 @ ?d"
      using sn c k by (simp add: positiveToString_def Let_def ascii_def)
    then show ?thesis using d zs dot
      by (intro exI [of _ "[48, 46] @ replicate (nat (- n)) 48 @ ?d"] exI [of _ "[]"]) simp
  next
    case d
    let ?u = "(if int (length ?d) = 1 then ?d else take 1 ?d @ [46] @ drop 1 ?d) @ [101]"
    have u: "?u \<noteq> []" "list_all (\<lambda>c. \<not> isOperatorChar c) ?u"
      using \<open>list_all (\<lambda>c. \<not> isOperatorChar c) ?d\<close> td dot by simp_all
    have "positiveToString x = ?u @ [43] @ decimal \<bar>n - 1\<bar>"
      using sn d k by (simp add: positiveToString_def Let_def ascii_def)
    then show ?thesis
      using u ed en
      by (intro exI [of _ ?u] exI [of _ "decimal \<bar>n - 1\<bar>"]) auto
  next
    case e
    let ?u = "(if int (length ?d) = 1 then ?d else take 1 ?d @ [46] @ drop 1 ?d) @ [101]"
    have u: "?u \<noteq> []" "list_all (\<lambda>c. \<not> isOperatorChar c) ?u"
      using \<open>list_all (\<lambda>c. \<not> isOperatorChar c) ?d\<close> td dot by simp_all
    have "positiveToString x = ?u @ [45] @ decimal \<bar>n - 1\<bar>"
      using sn e k by (simp add: positiveToString_def Let_def ascii_def)
    then show ?thesis
      using u ed en
      by (intro exI [of _ ?u] exI [of _ "decimal \<bar>n - 1\<bar>"]) auto
  qed
qed


lemma spaced_signed:
  assumes "u \<noteq> []" and "list_all (\<lambda>c. \<not> isOperatorChar c) u" and "list_all isDigit v"
    and "v \<noteq> []"
  shows "spaced (u @ [c] @ v)" and "\<not> isOperatorChar (last (u @ [c] @ v))"
    and "\<not> isOperatorChar (hd (u @ [c] @ v))"
proof -
  have v: "list_all (\<lambda>c. \<not> isOperatorChar c) v" using digits_not_operator [OF assms(3)] .
  have lu: "\<not> isOperatorChar (last u)" using assms(1,2) by (simp add: list_all_iff)
  have hv: "\<not> isOperatorChar (hd v)" using assms(4) v by (cases v) simp_all
  show "spaced (u @ [c] @ v)"
    using assms(1,4) lu hv spaced_plain [OF assms(2)] spaced_plain [OF v]
    by (simp add: spaced_append spaced_Cons)
  show "\<not> isOperatorChar (last (u @ [c] @ v))"
    using assms(4) v by (simp add: list_all_iff)
  show "\<not> isOperatorChar (hd (u @ [c] @ v))"
    using assms(1,2) by (cases u) simp_all
qed

lemma positiveToString_spaced:
  assumes "0 < x"
  shows "spaced (positiveToString x)" and "\<not> isOperatorChar (last (positiveToString x))"
    and "\<not> isOperatorChar (hd (positiveToString x))"
proof -
  obtain u v where uv: "u \<noteq> []" "list_all (\<lambda>c. \<not> isOperatorChar c) u" "list_all isDigit v"
      "positiveToString x = u \<or>
         (v \<noteq> [] \<and> (positiveToString x = u @ [43] @ v \<or> positiveToString x = u @ [45] @ v))"
    using positiveToString_shape [OF assms] by blast
  have plain: "spaced u" "\<not> isOperatorChar (last u)" "\<not> isOperatorChar (hd u)"
    using uv(1,2) spaced_plain [OF uv(2)] by (simp_all add: list_all_iff)
  show "spaced (positiveToString x)"
    using uv(4) plain(1) spaced_signed(1) [OF uv(1,2,3)] by auto
  show "\<not> isOperatorChar (last (positiveToString x))"
    using uv(4) plain(2) spaced_signed(2) [OF uv(1,2,3)] by auto
  show "\<not> isOperatorChar (hd (positiveToString x))"
    using uv(4) plain(3) spaced_signed(3) [OF uv(1,2,3)] by auto
qed

lemma toString_spaced: "spaced (toString x) \<and> \<not> isOperatorChar (last (toString x))"
proof (cases x)
  case (Num r)
  show ?thesis
  proof (cases "r = 0")
    case True
    with Num show ?thesis by (simp add: toString_def ascii_def isOperatorChar_def)
  next
    case False
    show ?thesis
    proof (cases "r < 0")
      case True
      then have p: "0 < - r" by simp
      have ne: "positiveToString (- r) \<noteq> []" using positiveToString_not_empty .
      show ?thesis
        using Num True False ne positiveToString_spaced [OF p]
        by (simp add: toString_def ascii_def spaced_Cons)
    next
      case False
      then have p: "0 < r" using \<open>r \<noteq> 0\<close> by simp
      show ?thesis
        using Num False \<open>r \<noteq> 0\<close> positiveToString_spaced [OF p]
        by (simp add: toString_def)
    qed
  qed
qed (simp_all add: toString_def ascii_def isOperatorChar_def)

lemma toString_not_empty: "toString x \<noteq> []"
  by (cases x) (simp_all add: toString_def ascii_def positiveToString_not_empty)

lemma numberChar_plain: "numberChar c \<Longrightarrow> plainChar c \<and> c \<noteq> 44"
  by (auto simp: numberChar_def isDigit_def isWhiteSpace_def plainChar_def)

lemma toString_plain: "list_all (\<lambda>c. plainChar c \<and> c \<noteq> 44) (toString x)"
proof (cases x)
  case (Num r)
  have pos: "list_all (\<lambda>c. plainChar c \<and> c \<noteq> 44) (positiveToString y)" if "0 < y" for y
    using positiveToString_chars [OF that] numberChar_plain
    by (simp add: list_all_iff)
  show ?thesis
    using Num pos [of r] pos [of "- r"]
    by (simp add: toString_def ascii_def isWhiteSpace_def plainChar_def)
qed (simp_all add: toString_def ascii_def isWhiteSpace_def plainChar_def)

lemma ecma_printable: "printable ecma"
  by (simp add: printable_def ecma_def toString_not_empty toString_plain toString_spaced)

section \<open>What every run of keys keeps\<close>

lemma button_cases:
  assumes "val \<in> set buttonValues"
  obtains "val \<in> set controlKeys" | "val \<in> set unaryKeys" | "val \<in> set binaryOperators"
    | c where "val = [c]" and "isDigit c"
  using assms
  by (auto simp: buttonValues_def controlKeys_def unaryKeys_def binaryOperators_def ascii_def
      isDigit_def)

lemma hbc_digit:
  assumes "isDigit c"
  shows "handleButtonClick B s [c] =
     (if previousResult s \<noteq> None \<or> expression s = [] then
        \<lparr>expression = [c], screenNumbers = [c], previousResult = None\<rparr>
      else \<lparr>expression = expression s @ [c], screenNumbers = expression s @ [c],
            previousResult = None\<rparr>)"
proof -
  have nc: "[c] \<notin> set controlKeys"
    using assms by (auto simp: controlKeys_def key_defs isDigit_def)
  have nm: "mathOps B (screenNumbers s) [c] = None"
    using assms by (simp add: mathOps_def key_defs isDigit_def Let_def)
  have no: "[c] \<notin> set binaryOperators"
    using assms by (auto simp: binaryOperators_def key_defs isDigit_def)
  show ?thesis
    unfolding hbc_plain [OF nc nm] using assms no by simp
qed

lemma hbc_unary:
  assumes "val \<in> set unaryKeys"
  shows "handleButtonClick B s val = error_state
       \<or> (\<exists>x. handleButtonClick B s val = resultState B (formatNumber B x))"
proof -
  have k: "val \<in> {ascii ''%'', ascii ''+/-'', key_reciprocal, key_square, key_sqrt}"
    using assms by (simp add: unaryKeys_def)
  consider "val = ascii ''%''" | "val = ascii ''+/-''" | "val = key_reciprocal"
    | "val = key_square" | "val = key_sqrt"
    using k by auto
  then show ?thesis
  proof cases
    case 1 then show ?thesis
      unfolding hbc_mathOps [OF k] by (auto simp: mathOps_def Let_def)
  next
    case 2 then show ?thesis
      unfolding hbc_mathOps [OF k] by (auto simp: mathOps_def Let_def key_defs)
  next
    case 3 then show ?thesis
      unfolding hbc_mathOps [OF k] by (auto simp: mathOps_def Let_def key_defs)
  next
    case 4 then show ?thesis
      unfolding hbc_mathOps [OF k] by (auto simp: mathOps_def Let_def key_defs)
  next
    case 5 then show ?thesis
      unfolding hbc_mathOps [OF k] by (auto simp: mathOps_def Let_def key_defs)
  qed
qed

lemma formatNumber_printable:
  assumes "printable B"
  shows "formatNumber B x \<noteq> []"
    and "list_all (\<lambda>c. plainChar c \<and> c \<noteq> 44) (formatNumber B x)"
    and "spaced (formatNumber B x)"
    and "\<not> isOperatorChar (last (formatNumber B x))"
  using assms
  by (simp_all add: formatNumber_def printable_def ascii_def isWhiteSpace_def plainChar_def
      isOperatorChar_def)

lemma formatNumber_tidy:
  assumes "printable B"
  shows "tidy \<lparr>expression = formatNumber B x, screenNumbers = formatNumber B x,
                previousResult = r\<rparr>"
  using formatNumber_printable [OF assms, of x]
  by (auto simp: tidy_def resultShown_def list_all_iff)

lemma tidy_cleared:
  "list_all plainChar e \<Longrightarrow> spaced e
   \<Longrightarrow> tidy \<lparr>expression = e, screenNumbers = d, previousResult = None\<rparr>"
  by (simp add: tidy_def resultShown_def)

lemma button_plain: "val \<in> set buttonValues \<Longrightarrow> list_all plainChar val"
  by (auto simp: buttonValues_def key_defs isWhiteSpace_def plainChar_def)

lemma operator_char: "[c] \<in> set binaryOperators \<longleftrightarrow> isOperatorChar c"
  by (auto simp: binaryOperators_def key_defs isOperatorChar_def)

lemma hbc_tidy:
  assumes p: "printable B" and v: "val \<in> set buttonValues" and t: "tidy s"
  shows "tidy (handleButtonClick B s val)"
proof -
  have e: "list_all plainChar (expression s)" and sp: "spaced (expression s)"
    using t by (simp_all add: tidy_def)
  have bl: "list_all plainChar (butlast (expression s))"
    using e by (auto simp: list_all_iff dest: in_set_butlastD)
  have sb: "spaced (butlast (expression s))" using spaced_butlast [OF sp] .
  have vc: "list_all plainChar val" using button_plain [OF v] .
  have shown: "previousResult s \<noteq> None \<Longrightarrow>
      screenNumbers s = expression s \<and> expression s \<noteq> []
      \<and> \<not> isOperatorChar (last (expression s))"
    using t by (auto simp: tidy_def resultShown_def)
  have z: "plainChar 48" "plainChar 44" "\<not> isOperatorChar 48" "\<not> isOperatorChar 44"
    by (simp_all add: isWhiteSpace_def plainChar_def isOperatorChar_def)
  from v show ?thesis
  proof (cases rule: button_cases)
    case 1
    then consider "val = ascii ''C''" | "val = ascii ''=''" | "val = key_backspace"
      | "val = ascii ''CE''" | "val = ascii '',''"
      by (auto simp: controlKeys_def)
    then show ?thesis
    proof cases
      case 1 show ?thesis
        unfolding 1 hbc_clear by (simp add: initial_state_def tidy_cleared)
    next
      case 2 show ?thesis
        unfolding 2 hbc_equals using t formatNumber_tidy [OF p]
        by (simp add: error_state_def tidy_cleared)
    next
      case 3 show ?thesis
        unfolding 3 hbc_backspace using t e bl sb
        by (simp add: initial_state_def tidy_def resultShown_def)
    next
      case 4 show ?thesis
        unfolding 4 hbc_clear_entry by (simp add: initial_state_def tidy_cleared)
    next
      case 5 show ?thesis
        unfolding 5 hbc_comma using t e sp z
        by (auto simp: tidy_def resultShown_def ascii_def spaced_append)
    qed
  next
    case 2
    then show ?thesis
      using hbc_unary [OF 2, of B s] formatNumber_tidy [OF p]
      by (auto simp: error_state_def tidy_cleared resultState_def)
  next
    case 3
    obtain c where c: "val = [c]" using operator_single [OF 3] by blast
    have op: "isOperatorChar c" using 3 c operator_char by simp
    note hb = hbc_operator [OF 3, of B s]
    show ?thesis
    proof (cases "previousResult s = None")
      case False
      show ?thesis
        unfolding hb using False shown [OF False] e sp vc c
        by (simp add: tidy_def resultShown_def spaced_append)
    next
      case True
      show ?thesis
      proof (cases "expression s \<noteq> [] \<and> [last (expression s)] \<in> set binaryOperators")
        case True
        then have lo: "isOperatorChar (last (expression s))" using operator_char by simp
        have "butlast (expression s) = [] \<or> \<not> isOperatorChar (last (butlast (expression s)))"
          using spaced_last_butlast [OF sp] True lo by blast
        then show ?thesis
          unfolding hb using True \<open>previousResult s = None\<close> bl sb vc c t
          by (auto simp: tidy_def resultShown_def spaced_append)
      next
        case False
        then have "expression s = [] \<or> \<not> isOperatorChar (last (expression s))"
          using operator_char by auto
        then show ?thesis
          unfolding hb using False \<open>previousResult s = None\<close> e sp vc c
          by (auto simp: tidy_def resultShown_def spaced_append)
      qed
    qed
  next
    case (4 c)
    then show ?thesis
      using t e sp vc digit_not_operator [of c]
      by (auto simp: hbc_digit tidy_def resultShown_def spaced_append)
  qed
qed

lemma press_tidy:
  assumes "printable B" and "set vals \<subseteq> set buttonValues"
  shows "tidy (press B initial_state vals)"
  using assms(2)
proof (induction vals rule: rev_induct)
  case Nil
  show ?case by (simp add: press_def initial_state_def tidy_cleared)
next
  case (snoc v vs)
  then show ?case
    using hbc_tidy [OF assms(1), of v "press B initial_state vs"]
    by (simp add: press_snoc)
qed

lemma dropWhile_none: "list_all (\<lambda>c. \<not> P c) xs \<Longrightarrow> dropWhile P xs = xs"
  by (cases xs) simp_all

lemma trim_tidy:
  assumes "list_all plainChar e"
  shows "trim e = e"
proof -
  have e: "list_all (\<lambda>c. \<not> isWhiteSpace c) e"
    using assms by (simp add: list_all_iff plainChar_def)
  then have "list_all (\<lambda>c. \<not> isWhiteSpace c) (rev e)"
    by (simp add: list_all_iff)
  then show ?thesis
    using e by (simp add: trim_def dropWhile_none)
qed

lemma hbc_operator_expression:
  assumes "val \<in> set binaryOperators"
  shows "\<exists>x. expression (handleButtonClick B s val) = x @ val"
  by (simp add: hbc_operator [OF assms])

lemma operator_button: "val \<in> set binaryOperators \<Longrightarrow> val \<in> set buttonValues"
  by (auto simp: binaryOperators_def buttonValues_def)

lemma spaced_no_exponentiation:
  "list_all plainChar e \<Longrightarrow> spaced e \<Longrightarrow> \<not> adjacent 42 (sanitize e)"
proof (induction e rule: spaced.induct)
  case 1
  show ?case by (simp add: sanitize_def)
next
  case (2 c)
  show ?case by (simp add: sanitize_def)
next
  case (3 c d cs)
  then have "\<not> adjacent 42 (sanitize (d # cs))" by simp
  moreover have "\<not> (c = 215 \<and> d = 215)" using 3(3) by (auto simp: isOperatorChar_def)
  moreover have "c \<noteq> 42" "d \<noteq> 42" using 3(2) by (simp_all add: plainChar_def)
  ultimately show ?case by (auto simp: sanitize_def)
qed

text \<open>No run of keys writes an expression whose translation holds two asterisks side by
  side, the one text of the character class that \<open>callFunction\<close> does not model.\<close>

lemma no_exponentiation:
  assumes "printable B" and "set vals \<subseteq> set buttonValues"
  shows "\<not> adjacent 42 (sanitize (expression (press B initial_state vals)))"
  using press_tidy [OF assms] spaced_no_exponentiation by (simp add: tidy_def)


lemma formatNumber_not_empty:
  "\<forall>x. b_toString B x \<noteq> [] \<Longrightarrow> formatNumber B y \<noteq> []"
  by (simp add: formatNumber_def ascii_def)

lemma hbc_display:
  assumes p: "\<forall>x. b_toString B x \<noteq> []" and v: "val \<in> set buttonValues"
    and d: "screenNumbers s \<noteq> []"
  shows "screenNumbers (handleButtonClick B s val) \<noteq> []"
proof -
  note f = formatNumber_not_empty [OF p]
  from v show ?thesis
  proof (cases rule: button_cases)
    case 1
    then consider "val = ascii ''C''" | "val = ascii ''=''" | "val = key_backspace"
      | "val = ascii ''CE''" | "val = ascii '',''"
      by (auto simp: controlKeys_def)
    then show ?thesis
    proof cases
      case 1 show ?thesis
        unfolding 1 hbc_clear by (simp add: initial_state_def ascii_def)
    next
      case 2 show ?thesis
        unfolding 2 hbc_equals using d f by (simp add: error_state_def ascii_def)
    next
      case 3 show ?thesis
        unfolding 3 hbc_backspace using d by (simp add: initial_state_def ascii_def)
    next
      case 4 show ?thesis
        unfolding 4 hbc_clear_entry by (simp add: initial_state_def ascii_def)
    next
      case 5 show ?thesis
        unfolding 5 hbc_comma using d by (simp add: ascii_def)
    qed
  next
    case 2
    then show ?thesis
      using hbc_unary [OF 2, of B s] f
      by (auto simp: error_state_def resultState_def ascii_def)
  next
    case 3
    then have "val \<noteq> []" using operator_single by auto
    then show ?thesis
      using 3 by (simp add: hbc_operator)
  next
    case (4 c)
    then show ?thesis by (simp add: hbc_digit)
  qed
qed

lemma rejected_is_NaN: "\<not> list_all allowedChar (sanitize e) \<Longrightarrow> safeEval B e = NaN"
  by (simp add: safeEval_def securityCheck_def Let_def)

lemma hbc_formatted:
  assumes "val \<in> set buttonValues"
  shows "handleButtonClick B s val = s \<or> previousResult (handleButtonClick B s val) = None
       \<or> (\<exists>x. expression (handleButtonClick B s val) = formatNumber B x
              \<and> screenNumbers (handleButtonClick B s val) = formatNumber B x)"
  using assms
proof (cases rule: button_cases)
  case 1
  then consider "val = ascii ''C''" | "val = ascii ''=''" | "val = key_backspace"
    | "val = ascii ''CE''" | "val = ascii '',''"
    by (auto simp: controlKeys_def)
  then show ?thesis
  proof cases
    case 1 show ?thesis unfolding 1 hbc_clear by (simp add: initial_state_def)
  next
    case 2 show ?thesis unfolding 2 hbc_equals by (auto simp: error_state_def)
  next
    case 3 show ?thesis unfolding 3 hbc_backspace by (simp add: initial_state_def)
  next
    case 4 show ?thesis unfolding 4 hbc_clear_entry by (simp add: initial_state_def)
  next
    case 5 show ?thesis unfolding 5 hbc_comma by simp
  qed
next
  case 2
  then show ?thesis
    using hbc_unary [OF 2, of B s] by (auto simp: error_state_def resultState_def)
next
  case 3
  then show ?thesis by (simp add: hbc_operator)
next
  case (4 c)
  then show ?thesis by (simp add: hbc_digit)
qed

text \<open>
  A finite number whose square is not finite: \<open>formatNumber\<close> returns the string
  \<open>Error\<close>, which is not \<open>null\<close>, so the square key sets expression and display to
  \<open>Error\<close> and records what \<open>parseFloat\<close> reads from \<open>Error\<close> as the previous result.
\<close>

lemma square_overflow:
  assumes "isFinite (b_parseFloat B (screenNumbers s))"
    and "\<not> isFinite (b_multiply B (b_parseFloat B (screenNumbers s))
                                    (b_parseFloat B (screenNumbers s)))"
  shows "handleButtonClick B s key_square =
     \<lparr>expression = ascii ''Error'', screenNumbers = ascii ''Error'',
      previousResult = Some (b_parseFloat B (ascii ''Error''))\<rparr>"
proof -
  have k: "key_square \<in> {ascii ''%'', ascii ''+/-'', key_reciprocal, key_square, key_sqrt}"
    by simp
  show ?thesis
    unfolding hbc_mathOps [OF k] using assms
    by (simp add: mathOps_def Let_def key_defs formatNumber_def resultState_def)
qed

section \<open>Runs of keys on the built-ins of ECMAScript\<close>

lemma run_5_div_0:
  "press ecma initial_state [ascii ''5'', key_divide, ascii ''0'', ascii ''=''] = error_state"
  by code_simp

lemma run_5_plus:
  "press ecma initial_state [ascii ''5'', ascii ''+'', ascii ''=''] = error_state"
  by code_simp

lemma eval_5_div_0: "safeEval ecma (ascii ''5'' @ key_divide @ ascii ''0'') = PosInfinity"
  by code_simp

lemma eval_0_div_0: "safeEval ecma (ascii ''0'' @ key_divide @ ascii ''0'') = NaN"
  by code_simp

lemma run_2_plus_3_times_4:
  "press ecma initial_state
     [ascii ''2'', ascii ''+'', ascii ''3'', key_times, ascii ''4'', ascii ''='']
   = \<lparr>expression = ascii ''14'', screenNumbers = ascii ''14'', previousResult = Some (Num 14)\<rparr>"
  by code_simp

lemma run_8_minus_3_minus_2:
  "press ecma initial_state
     [ascii ''8'', ascii ''-'', ascii ''3'', ascii ''-'', ascii ''2'', ascii ''='']
   = \<lparr>expression = ascii ''3'', screenNumbers = ascii ''3'', previousResult = Some (Num 3)\<rparr>"
  by code_simp

lemma run_8_div_4_div_2:
  "press ecma initial_state
     [ascii ''8'', key_divide, ascii ''4'', key_divide, ascii ''2'', ascii ''='']
   = \<lparr>expression = ascii ''1'', screenNumbers = ascii ''1'', previousResult = Some (Num 1)\<rparr>"
  by code_simp

lemma run_scientific:
  "expression (press ecma initial_state
     [ascii ''1'', ascii ''%'', ascii ''%'', ascii ''%'', ascii ''%'', ascii ''+'', ascii ''1''])
   = ascii ''1e-8+1''"
  by code_simp

section \<open>Clearing\<close>

text \<open>
  Claim C6. From every state, the clear-all key \<open>C\<close> gives exactly the initial state
  (empty expression, display \<open>0\<close>, no previous result), and the clear-entry key \<open>CE\<close>
  gives the same state; so clearing twice is clearing once, and the result does not
  depend on the state.
\<close>

theorem clear_is_initial:
  "handleButtonClick B s (ascii ''C'') = initial_state
   \<and> handleButtonClick B s (ascii ''CE'') = initial_state
   \<and> handleButtonClick B s (ascii ''CE'') = handleButtonClick B s (ascii ''C'')
   \<and> handleButtonClick B (handleButtonClick B s (ascii ''C'')) (ascii ''C'')
       = handleButtonClick B s (ascii ''C'')
   \<and> handleButtonClick B s (ascii ''C'') = handleButtonClick B t (ascii ''C'')"
  by (simp add: handleButtonClick_def initial_state_def ascii_def key_backspace_def)

section \<open>Consecutive operators\<close>

text \<open>
  Claim C7. For binary operator keys \<open>v\<close> and \<open>w\<close>: in a state with no previous result
  whose expression ends in \<open>v\<close>, the key \<open>w\<close> replaces that trailing operator in the
  expression and the display and changes nothing else; from every state, pressing \<open>v\<close>
  and then \<open>w\<close> gives the state that pressing \<open>w\<close> alone gives; and after any run of
  keys from the initial state, pressing \<open>v\<close> and then \<open>w\<close> gives an expression that ends
  in \<open>w\<close> and in exactly one operator character, for built-ins whose \<open>toString\<close> prints
  no two operator characters side by side and none at the end.
\<close>

theorem last_operator_wins:
  assumes "v \<in> set binaryOperators" and "w \<in> set binaryOperators"
  shows "(previousResult s = None \<and> expression s = e @ v \<longrightarrow>
            handleButtonClick B s w = s\<lparr>expression := e @ w, screenNumbers := e @ w\<rparr>)
       \<and> handleButtonClick B (handleButtonClick B s v) w = handleButtonClick B s w
       \<and> (printable B \<and> set vals \<subseteq> set buttonValues \<longrightarrow>
            (\<exists>x. expression (press B initial_state (vals @ [v, w])) = x @ w)
            \<and> endsInOneOperator (expression (press B initial_state (vals @ [v, w]))))"
proof -
  obtain c where v: "v = [c]" using operator_single [OF assms(1)] by blast
  obtain d where w: "w = [d]" using operator_single [OF assms(2)] by blast
  have lst: "[last (x @ v)] = v" "butlast (x @ v) = x" "x @ v \<noteq> []"
      "butlast v = []" "[last v] = v" "v \<noteq> []" for x
    using v by simp_all
  have first: "previousResult s = None \<and> expression s = e @ v \<longrightarrow>
            handleButtonClick B s w = s\<lparr>expression := e @ w, screenNumbers := e @ w\<rparr>"
    using assms(1) lst by (simp add: hbc_operator [OF assms(2)])
  have second: "handleButtonClick B (handleButtonClick B t v) w = handleButtonClick B t w" for t
    using assms(1) lst
    by (cases "previousResult t")
       (simp_all add: hbc_operator [OF assms(2)] hbc_operator [OF assms(1)])
  have third: "(\<exists>x. expression (press B initial_state (vals @ [v, w])) = x @ w)
            \<and> endsInOneOperator (expression (press B initial_state (vals @ [v, w])))"
    if p: "printable B" and k: "set vals \<subseteq> set buttonValues"
  proof -
    let ?t = "press B initial_state (vals @ [v, w])"
    have run: "?t = handleButtonClick B (press B initial_state vals) w"
      using second [of "press B initial_state vals"] by (simp add: press_def)
    obtain x where x: "expression ?t = x @ w"
      using hbc_operator_expression [OF assms(2), of B "press B initial_state vals"] run
      by auto
    have "set (vals @ [v, w]) \<subseteq> set buttonValues"
      using k operator_button [OF assms(1)] operator_button [OF assms(2)] by simp
    then have "spaced (expression ?t)"
      using press_tidy [OF p] by (simp add: tidy_def)
    moreover have "isOperatorChar d" using assms(2) w operator_char by simp
    ultimately have "endsInOneOperator (expression ?t)"
      using x w by (auto simp: endsInOneOperator_def spaced_append)
    then show ?thesis using x by blast
  qed
  show ?thesis using first second third by blast
qed

theorem last_operator_wins_witness:
  "ascii ''+'' \<in> set binaryOperators \<and> ascii ''-'' \<in> set binaryOperators
   \<and> handleButtonClick ecma
        \<lparr>expression = ascii ''5+'', screenNumbers = ascii ''5+'', previousResult = None\<rparr>
        (ascii ''-'')
       = \<lparr>expression = ascii ''5-'', screenNumbers = ascii ''5-'', previousResult = None\<rparr>
   \<and> printable ecma \<and> set [ascii ''5''] \<subseteq> set buttonValues
   \<and> expression (press ecma initial_state ([ascii ''5''] @ [ascii ''+'', ascii ''-'']))
       = ascii ''5-''
   \<and> endsInOneOperator (expression
        (press ecma initial_state ([ascii ''5''] @ [ascii ''+'', ascii ''-''])))"
proof -
  have plus: "ascii ''+'' \<in> set binaryOperators" and minus: "ascii ''-'' \<in> set binaryOperators"
    by (simp_all add: binaryOperators_def)
  have five: "set [ascii ''5''] \<subseteq> set buttonValues"
    by (simp add: buttonValues_def)
  have typed: "expression (press ecma initial_state ([ascii ''5''] @ [ascii ''+'', ascii ''-'']))
       = ascii ''5-''"
    by code_simp
  note wins = last_operator_wins [OF plus minus, of
        "\<lparr>expression = ascii ''5+'', screenNumbers = ascii ''5+'', previousResult = None\<rparr>"
        "ascii ''5''" ecma "[ascii ''5'']"]
  have replaced: "handleButtonClick ecma
        \<lparr>expression = ascii ''5+'', screenNumbers = ascii ''5+'', previousResult = None\<rparr>
        (ascii ''-'')
       = \<lparr>expression = ascii ''5-'', screenNumbers = ascii ''5-'', previousResult = None\<rparr>"
    using wins by (simp add: ascii_def)
  have one: "endsInOneOperator (expression
        (press ecma initial_state ([ascii ''5''] @ [ascii ''+'', ascii ''-''])))"
    using wins ecma_printable five by blast
  show ?thesis
    using plus minus replaced ecma_printable five typed one by blast
qed

section \<open>Keys that are ignored\<close>

text \<open>
  The evaluate key \<open>=\<close> leaves the state as it is when the expression is empty or holds
  white space only. The separator key leaves the state as it is when no previous result
  is recorded and the current numeric run holds a comma, code unit 44, which is what
  \<open>currentNumber.includes(",")\<close> tests; in a state that a run of keys reaches from the
  initial state, a comma in the current numeric run is enough, for built-ins whose
  \<open>toString\<close> prints no comma.
\<close>

lemma guards_leave_state:
  "(trim (expression s) = [] \<longrightarrow> handleButtonClick B s (ascii ''='') = s)
   \<and> (previousResult s = None \<and> 44 \<in> set (currentRun (expression s)) \<longrightarrow>
        handleButtonClick B s (ascii '','') = s)
   \<and> (printable B \<and> set vals \<subseteq> set buttonValues
        \<and> 44 \<in> set (currentRun (expression (press B initial_state vals))) \<longrightarrow>
        handleButtonClick B (press B initial_state vals) (ascii '','') = press B initial_state vals)"
proof -
  have general: "previousResult t = None \<and> 44 \<in> set (currentRun (expression t)) \<longrightarrow>
        handleButtonClick B t (ascii '','') = t" for t
    by (simp add: hbc_comma last_split_class currentRun_def)
  have reached: "handleButtonClick B (press B initial_state vals) (ascii '','') = press B initial_state vals"
    if p: "printable B" and k: "set vals \<subseteq> set buttonValues"
      and c: "44 \<in> set (currentRun (expression (press B initial_state vals)))"
  proof -
    have "44 \<in> set (expression (press B initial_state vals))"
      using c by (auto simp: currentRun_def dest: set_takeWhileD)
    then have "previousResult (press B initial_state vals) = None"
      using press_tidy [OF p k] by (auto simp: tidy_def)
    then show ?thesis using general c by simp
  qed
  show ?thesis using general reached by (simp add: hbc_equals)
qed

text \<open>
  Claim C8. The separator key is not ignored when the separator that the current numeric
  run holds is the dot of a printed result. With the built-ins of ECMAScript, the keys
  \<open>4\<close>, reciprocal, \<open>+\<close>, backspace from the initial state leave the expression \<open>0.25\<close> with
  no previous result, and the current numeric run is \<open>0.25\<close>. The separator key then
  appends a comma, the state becomes \<open>0.25,\<close>; after the key \<open>5\<close> the expression is
  \<open>0.25,5\<close>, which \<open>safeEval\<close> cannot evaluate, and the evaluate key gives the error
  display. A typed comma is guarded: after the keys \<open>0\<close>, \<open>,\<close>, \<open>2\<close>, \<open>5\<close> the separator
  key changes nothing.
\<close>

theorem second_separator_accepted:
  "press ecma initial_state [ascii ''4'', key_reciprocal, ascii ''+'', key_backspace]
     = \<lparr>expression = ascii ''0.25'', screenNumbers = ascii ''0.25'', previousResult = None\<rparr>
   \<and> currentRun (ascii ''0.25'') = ascii ''0.25''
   \<and> press ecma initial_state
        [ascii ''4'', key_reciprocal, ascii ''+'', key_backspace, ascii '','']
     = \<lparr>expression = ascii ''0.25,'', screenNumbers = ascii ''0.25,'', previousResult = None\<rparr>
   \<and> press ecma initial_state
        [ascii ''4'', key_reciprocal, ascii ''+'', key_backspace, ascii '','', ascii ''5'']
     = \<lparr>expression = ascii ''0.25,5'', screenNumbers = ascii ''0.25,5'', previousResult = None\<rparr>
   \<and> safeEval ecma (ascii ''0.25,5'') = NaN
   \<and> press ecma initial_state
        [ascii ''4'', key_reciprocal, ascii ''+'', key_backspace, ascii '','', ascii ''5'',
         ascii ''='']
     = error_state
   \<and> press ecma initial_state [ascii ''0'', ascii '','', ascii ''2'', ascii ''5'']
     = \<lparr>expression = ascii ''0,25'', screenNumbers = ascii ''0,25'', previousResult = None\<rparr>
   \<and> press ecma initial_state [ascii ''0'', ascii '','', ascii ''2'', ascii ''5'', ascii '','']
     = \<lparr>expression = ascii ''0,25'', screenNumbers = ascii ''0,25'', previousResult = None\<rparr>"
proof -
  have printed: "press ecma initial_state [ascii ''4'', key_reciprocal, ascii ''+'', key_backspace]
     = \<lparr>expression = ascii ''0.25'', screenNumbers = ascii ''0.25'', previousResult = None\<rparr>"
    by code_simp
  have run: "currentRun (ascii ''0.25'') = ascii ''0.25''"
    by code_simp
  have second: "press ecma initial_state
        [ascii ''4'', key_reciprocal, ascii ''+'', key_backspace, ascii '','']
     = \<lparr>expression = ascii ''0.25,'', screenNumbers = ascii ''0.25,'', previousResult = None\<rparr>"
    by code_simp
  have five: "press ecma initial_state
        [ascii ''4'', key_reciprocal, ascii ''+'', key_backspace, ascii '','', ascii ''5'']
     = \<lparr>expression = ascii ''0.25,5'', screenNumbers = ascii ''0.25,5'', previousResult = None\<rparr>"
    by code_simp
  have unparsed: "safeEval ecma (ascii ''0.25,5'') = NaN"
    by code_simp
  have failed: "press ecma initial_state
        [ascii ''4'', key_reciprocal, ascii ''+'', key_backspace, ascii '','', ascii ''5'',
         ascii ''='']
     = error_state"
    by code_simp
  have typed: "press ecma initial_state [ascii ''0'', ascii '','', ascii ''2'', ascii ''5'']
     = \<lparr>expression = ascii ''0,25'', screenNumbers = ascii ''0,25'', previousResult = None\<rparr>"
    by code_simp
  have guarded: "press ecma initial_state
        [ascii ''0'', ascii '','', ascii ''2'', ascii ''5'', ascii '','']
     = \<lparr>expression = ascii ''0,25'', screenNumbers = ascii ''0,25'', previousResult = None\<rparr>"
    by code_simp
  show ?thesis
    by (intro conjI printed run second five unparsed failed typed guarded)
qed

section \<open>Leaving the error display\<close>

text \<open>
  Claim C9. From the error display (display \<open>Error\<close>, empty expression, no previous
  result) a digit key gives the state whose expression and display are that digit, with
  no previous result, and the keys \<open>C\<close> and \<open>CE\<close> give the initial state.
\<close>

theorem error_state_recovers:
  "(isDigit c \<longrightarrow> handleButtonClick B error_state [c]
       = \<lparr>expression = [c], screenNumbers = [c], previousResult = None\<rparr>)
   \<and> handleButtonClick B error_state (ascii ''C'') = initial_state
   \<and> handleButtonClick B error_state (ascii ''CE'') = initial_state
   \<and> screenNumbers error_state = ascii ''Error''"
proof -
  have "handleButtonClick B error_state [c]
       = \<lparr>expression = [c], screenNumbers = [c], previousResult = None\<rparr>" if d: "isDigit c"
  proof -
    have nc: "[c] \<notin> set controlKeys"
      using d by (auto simp: controlKeys_def key_defs isDigit_def)
    have nm: "mathOps B (screenNumbers error_state) [c] = None"
      using d by (simp add: mathOps_def key_defs isDigit_def Let_def)
    show ?thesis
      unfolding hbc_plain [OF nc nm] using d by (simp add: error_state_def)
  qed
  then show ?thesis
    by (simp add: hbc_clear hbc_clear_entry error_state_def)
qed

theorem error_state_recovers_witness:
  "isDigit 55
   \<and> handleButtonClick ecma error_state (ascii ''7'')
       = \<lparr>expression = ascii ''7'', screenNumbers = ascii ''7'', previousResult = None\<rparr>"
  using error_state_recovers [of 55 ecma]
  by (simp add: isDigit_def ascii_def)

section \<open>The previous result and the display\<close>

text \<open>
  Claim C10. \<open>resultShown\<close> (a recorded previous result implies that expression and
  display are one string) holds initially and is kept by every key of the calculator.
  Whatever the state before, a key either leaves the state as it is, or records no
  previous result, or sets expression and display to one formatted number. So
  \<open>resultShown\<close> holds after every run of keys.
\<close>

theorem result_shown_invariant:
  "resultShown initial_state
   \<and> (val \<in> set buttonValues \<and> resultShown s \<longrightarrow> resultShown (handleButtonClick B s val))
   \<and> (val \<in> set buttonValues \<longrightarrow>
        handleButtonClick B s val = s \<or> resultShown (handleButtonClick B s val))
   \<and> (val \<in> set buttonValues \<longrightarrow>
        handleButtonClick B s val = s \<or> previousResult (handleButtonClick B s val) = None
        \<or> (\<exists>x. expression (handleButtonClick B s val) = formatNumber B x
               \<and> screenNumbers (handleButtonClick B s val) = formatNumber B x))
   \<and> (set vals \<subseteq> set buttonValues \<longrightarrow> resultShown (press B initial_state vals))"
proof -
  have init: "resultShown initial_state"
    by (simp add: resultShown_def initial_state_def)
  have step: "resultShown t \<longrightarrow> resultShown (handleButtonClick B t v)" for t v
    using hbc_resultShown [of B t v] by auto
  have run: "resultShown (press B initial_state vals)"
  proof (induction vals rule: rev_induct)
    case Nil
    show ?case using init by (simp add: press_def)
  next
    case (snoc v vs)
    then show ?case using step by (simp add: press_snoc)
  qed
  show ?thesis using init step hbc_resultShown hbc_formatted run by blast
qed

theorem result_shown_invariant_witness:
  "resultShown \<lparr>expression = ascii ''14'', screenNumbers = ascii ''14'',
                 previousResult = Some (Num 14)\<rparr>
   \<and> resultShown (handleButtonClick ecma
        \<lparr>expression = ascii ''14'', screenNumbers = ascii ''14'',
         previousResult = Some (Num 14)\<rparr> (ascii ''+''))"
  using result_shown_invariant [of "ascii ''+''"
      "\<lparr>expression = ascii ''14'', screenNumbers = ascii ''14'',
        previousResult = Some (Num 14)\<rparr>" ecma "[]"]
  by (simp add: resultShown_def buttonValues_def)

section \<open>Evaluation\<close>

text \<open>
  Claim C2. From the initial state the keys 2, +, 3, multiplication sign, 4, = give the
  display \<open>14\<close>. Multiplication and division bind tighter than addition and
  subtraction, and operators of one precedence apply from left to right: shown on three
  runs of keys, and for all Numbers \<open>a\<close>, \<open>b\<close>, \<open>c\<close> on the tokens of \<open>a op b op c\<close>.
\<close>

theorem precedence_and_associativity:
  "press ecma initial_state
     [ascii ''2'', ascii ''+'', ascii ''3'', key_times, ascii ''4'', ascii ''='']
   = \<lparr>expression = ascii ''14'', screenNumbers = ascii ''14'', previousResult = Some (Num 14)\<rparr>
   \<and> press ecma initial_state
     [ascii ''8'', ascii ''-'', ascii ''3'', ascii ''-'', ascii ''2'', ascii ''='']
   = \<lparr>expression = ascii ''3'', screenNumbers = ascii ''3'', previousResult = Some (Num 3)\<rparr>
   \<and> press ecma initial_state
     [ascii ''8'', key_divide, ascii ''4'', key_divide, ascii ''2'', ascii ''='']
   = \<lparr>expression = ascii ''1'', screenNumbers = ascii ''1'', previousResult = Some (Num 1)\<rparr>
   \<and> shunt [TNum a, TPlus, TNum b, TTimes, TNum c] True [] [] = Some (js_add a (js_multiply b c))
   \<and> shunt [TNum a, TTimes, TNum b, TPlus, TNum c] True [] [] = Some (js_add (js_multiply a b) c)
   \<and> shunt [TNum a, TMinus, TNum b, TDivide, TNum c] True [] []
       = Some (js_subtract a (js_divide b c))
   \<and> shunt [TNum a, TMinus, TNum b, TMinus, TNum c] True [] []
       = Some (js_subtract (js_subtract a b) c)
   \<and> shunt [TNum a, TMinus, TNum b, TPlus, TNum c] True [] []
       = Some (js_add (js_subtract a b) c)
   \<and> shunt [TNum a, TDivide, TNum b, TDivide, TNum c] True [] []
       = Some (js_divide (js_divide a b) c)
   \<and> shunt [TNum a, TDivide, TNum b, TTimes, TNum c] True [] []
       = Some (js_multiply (js_divide a b) c)"
  by (simp add: run_2_plus_3_times_4 run_8_minus_3_minus_2 run_8_div_4_div_2 binary_def)

text \<open>
  Claim C3. When the expression is not blank and \<open>safeEval\<close> returns NaN or a value
  that is not finite, the evaluate key gives the error display: display \<open>Error\<close>, empty
  expression, no previous result. An exception of the \<open>Function\<close> call is caught and
  becomes NaN. With the built-ins of ECMAScript, 5 divided by 0 is Infinity and 0
  divided by 0 is NaN, and the keys 5, division sign, 0, = give the error display, as do
  the keys 5, +, =, whose expression is malformed.
\<close>

theorem failed_evaluation_shows_error:
  "(trim (expression s) \<noteq> []
      \<and> (isNaN (safeEval B (expression s)) \<or> \<not> isFinite (safeEval B (expression s)))
      \<longrightarrow> handleButtonClick B s (ascii ''='') = error_state)
   \<and> (b_Function B (functionBody (sanitize e)) = None \<longrightarrow> safeEval B e = NaN)
   \<and> safeEval ecma (ascii ''5'' @ key_divide @ ascii ''0'') = PosInfinity
   \<and> press ecma initial_state [ascii ''5'', key_divide, ascii ''0'', ascii ''=''] = error_state
   \<and> safeEval ecma (ascii ''0'' @ key_divide @ ascii ''0'') = NaN
   \<and> press ecma initial_state [ascii ''5'', ascii ''+'', ascii ''=''] = error_state"
proof -
  have general: "trim (expression s) \<noteq> []
      \<and> (isNaN (safeEval B (expression s)) \<or> \<not> isFinite (safeEval B (expression s)))
      \<longrightarrow> handleButtonClick B s (ascii ''='') = error_state"
    by (auto simp: hbc_equals isNaN_def isFinite_def)
  have caught: "b_Function B (functionBody (sanitize e)) = None \<longrightarrow> safeEval B e = NaN"
    by (simp add: safeEval_def Let_def)
  show ?thesis
    using general caught eval_5_div_0 run_5_div_0 eval_0_div_0 run_5_plus by blast
qed

theorem failed_evaluation_shows_error_witness:
  "trim (ascii ''5'' @ key_divide @ ascii ''0'') \<noteq> []
   \<and> \<not> isFinite (safeEval ecma (ascii ''5'' @ key_divide @ ascii ''0''))
   \<and> handleButtonClick ecma
        \<lparr>expression = ascii ''5'' @ key_divide @ ascii ''0'',
         screenNumbers = ascii ''5'' @ key_divide @ ascii ''0'', previousResult = None\<rparr>
        (ascii ''='') = error_state
   \<and> b_Function ecma (functionBody (sanitize (ascii ''5+''))) = None
   \<and> safeEval ecma (ascii ''5+'') = NaN"
proof -
  have blank: "trim (ascii ''5'' @ key_divide @ ascii ''0'') \<noteq> []"
    by (simp add: trim_def key_defs isWhiteSpace_def)
  have thrown: "b_Function ecma (functionBody (sanitize (ascii ''5+''))) = None"
    by code_simp
  show ?thesis
    using blank thrown
      failed_evaluation_shows_error [of
        "\<lparr>expression = ascii ''5'' @ key_divide @ ascii ''0'',
          screenNumbers = ascii ''5'' @ key_divide @ ascii ''0'', previousResult = None\<rparr>"
        ecma "ascii ''5+''"]
    by (simp add: isFinite_def)
qed

section \<open>Unary operations\<close>

text \<open>
  The branch of each unary key, for any built-ins: the key works on the number that
  \<open>parseFloat\<close> reads from the display. When that number is finite (and, for the
  reciprocal, not zero; for the square root, not negative) the formatted result becomes
  the expression and the display, and the previous result becomes the number that
  \<open>parseFloat\<close> reads from the formatted result; otherwise the key gives the error
  display. With the built-ins of ECMAScript the reciprocal key gives the error display
  on the display \<open>0\<close>, and on the display \<open>4\<close> it gives \<open>0.25\<close> with the previous result
  1/4.
\<close>

lemma unary_key_branches:
  "handleButtonClick B s (ascii ''%'') =
     (let num = b_parseFloat B (screenNumbers s) in
      if isFinite num then resultState B (formatNumber B (b_divide B num (Num 100)))
      else error_state)
   \<and> handleButtonClick B s (ascii ''+/-'') =
     (let num = b_parseFloat B (screenNumbers s) in
      if isFinite num then resultState B (formatNumber B (negate num))
      else error_state)
   \<and> handleButtonClick B s key_reciprocal =
     (let num = b_parseFloat B (screenNumbers s) in
      if isFinite num \<and> \<not> is_zero num
      then resultState B (formatNumber B (b_divide B (Num 1) num))
      else error_state)
   \<and> handleButtonClick B s key_square =
     (let num = b_parseFloat B (screenNumbers s) in
      if isFinite num then resultState B (formatNumber B (b_multiply B num num))
      else error_state)
   \<and> handleButtonClick B s key_sqrt =
     (let num = b_parseFloat B (screenNumbers s) in
      if isFinite num \<and> \<not> is_negative num then resultState B (formatNumber B (b_sqrt B num))
      else error_state)
   \<and> (screenNumbers s = ascii ''0'' \<longrightarrow> handleButtonClick ecma s key_reciprocal = error_state)
   \<and> (screenNumbers s = ascii ''4'' \<longrightarrow> handleButtonClick ecma s key_reciprocal =
         \<lparr>expression = ascii ''0.25'', screenNumbers = ascii ''0.25'',
          previousResult = Some (Num (1 / 4))\<rparr>)"
proof -
  have percent: "handleButtonClick B s (ascii ''%'') =
     (let num = b_parseFloat B (screenNumbers s) in
      if isFinite num then resultState B (formatNumber B (b_divide B num (Num 100)))
      else error_state)" for B s
    by (simp add: hbc_mathOps mathOps_def Let_def)
  have sign: "handleButtonClick B s (ascii ''+/-'') =
     (let num = b_parseFloat B (screenNumbers s) in
      if isFinite num then resultState B (formatNumber B (negate num))
      else error_state)" for B s
    by (simp add: hbc_mathOps mathOps_def Let_def key_defs)
  have recip: "handleButtonClick B s key_reciprocal =
     (let num = b_parseFloat B (screenNumbers s) in
      if isFinite num \<and> \<not> is_zero num
      then resultState B (formatNumber B (b_divide B (Num 1) num))
      else error_state)" for B s
    by (simp add: hbc_mathOps mathOps_def Let_def key_defs)
  have square: "handleButtonClick B s key_square =
     (let num = b_parseFloat B (screenNumbers s) in
      if isFinite num then resultState B (formatNumber B (b_multiply B num num))
      else error_state)" for B s
    by (simp add: hbc_mathOps mathOps_def Let_def key_defs)
  have root: "handleButtonClick B s key_sqrt =
     (let num = b_parseFloat B (screenNumbers s) in
      if isFinite num \<and> \<not> is_negative num then resultState B (formatNumber B (b_sqrt B num))
      else error_state)" for B s
    by (simp add: hbc_mathOps mathOps_def Let_def key_defs)
  have zero: "screenNumbers s = ascii ''0'' \<longrightarrow> handleButtonClick ecma s key_reciprocal = error_state"
    by (simp add: recip ecma_parse_0 is_zero_def)
  have four: "screenNumbers s = ascii ''4'' \<longrightarrow> handleButtonClick ecma s key_reciprocal =
         \<lparr>expression = ascii ''0.25'', screenNumbers = ascii ''0.25'',
          previousResult = Some (Num (1 / 4))\<rparr>"
    by (simp add: recip ecma_parse_4 is_zero_def isFinite_def ecma_format_quarter
        resultState_def ecma_parse_quarter)
  show ?thesis
    using percent sign recip square root zero four by blast
qed

text \<open>Digits typed from the initial state are the expression and the display.\<close>

lemma typed_digits:
  assumes "ds \<noteq> []" and "list_all isDigit ds"
  shows "press B initial_state (map (\<lambda>c. [c]) ds)
       = \<lparr>expression = ds, screenNumbers = ds, previousResult = None\<rparr>"
  using assms
proof (induction ds rule: rev_induct)
  case Nil
  then show ?case by simp
next
  case (snoc x xs)
  have x: "isDigit x" using snoc.prems by simp
  show ?case
  proof (cases "xs = []")
    case True
    then show ?thesis
      using hbc_digit [OF x, of B initial_state]
      by (simp add: press_def initial_state_def)
  next
    case False
    then have "press B initial_state (map (\<lambda>c. [c]) xs)
       = \<lparr>expression = xs, screenNumbers = xs, previousResult = None\<rparr>"
      using snoc by simp
    then show ?thesis
      using hbc_digit [OF x, of B "press B initial_state (map (\<lambda>c. [c]) xs)"] False
      by (simp add: press_snoc)
  qed
qed

text \<open>The 155 digits of \<open>2^512\<close>: a finite Number whose square, \<open>2^1024\<close>, is not finite.\<close>

lemma digits_2_512:
  "list_all isDigit (ascii ''13407807929942597099574024998205846127479365820592393377723561443721764030073546976801874298166903427690031858186486050853753882811946569946433649006084096'')"
  by code_simp

lemma parse_2_512:
  "parseFloat (ascii ''13407807929942597099574024998205846127479365820592393377723561443721764030073546976801874298166903427690031858186486050853753882811946569946433649006084096'')
   = Num 13407807929942597099574024998205846127479365820592393377723561443721764030073546976801874298166903427690031858186486050853753882811946569946433649006084096"
  by code_simp

lemma square_2_512:
  "js_multiply
     (Num 13407807929942597099574024998205846127479365820592393377723561443721764030073546976801874298166903427690031858186486050853753882811946569946433649006084096)
     (Num 13407807929942597099574024998205846127479365820592393377723561443721764030073546976801874298166903427690031858186486050853753882811946569946433649006084096)
   = PosInfinity"
  by code_simp

lemma parse_Error: "parseFloat (ascii ''Error'') = NaN"
  by code_simp

text \<open>
  Claim C4. A unary key works on what \<open>parseFloat\<close> reads from the display, which is
  not always the number that the display shows, and a result that is not finite does not
  give the error display. With the built-ins of ECMAScript, from the initial state:
  the keys \<open>0\<close>, \<open>,\<close>, \<open>5\<close> give the display \<open>0,5\<close>, from which \<open>parseFloat\<close> reads 0, and
  the reciprocal key then gives the error display, although the keys \<open>1\<close>, \<open>\<div>\<close>, \<open>0\<close>,
  \<open>,\<close>, \<open>5\<close>, \<open>=\<close> give 2; the keys \<open>2\<close>, \<open>,\<close>, \<open>5\<close> and the square key give \<open>4\<close> with
  the previous result 4, although the keys \<open>2\<close>, \<open>,\<close>, \<open>5\<close>, \<open>\<times>\<close>, \<open>2\<close>, \<open>,\<close>, \<open>5\<close>, \<open>=\<close>
  give \<open>6.25\<close>; the keys \<open>3\<close> and reciprocal give \<open>0.33333333\<close>, and the previous result
  is the number read from that text, which is not the quotient of 1 by 3; and the 155
  digits of \<open>2^512\<close> followed by the square key give the expression \<open>Error\<close>, the display
  \<open>Error\<close> and the previous result NaN, where the error display has the empty
  expression and no previous result.
\<close>

theorem unary_key_divergences:
  "press ecma initial_state [ascii ''0'', ascii '','', ascii ''5'']
     = \<lparr>expression = ascii ''0,5'', screenNumbers = ascii ''0,5'', previousResult = None\<rparr>
   \<and> parseFloat (ascii ''0,5'') = Num 0
   \<and> press ecma initial_state [ascii ''0'', ascii '','', ascii ''5'', key_reciprocal]
     = error_state
   \<and> press ecma initial_state
        [ascii ''1'', key_divide, ascii ''0'', ascii '','', ascii ''5'', ascii ''='']
     = \<lparr>expression = ascii ''2'', screenNumbers = ascii ''2'', previousResult = Some (Num 2)\<rparr>
   \<and> press ecma initial_state [ascii ''2'', ascii '','', ascii ''5'', key_square]
     = \<lparr>expression = ascii ''4'', screenNumbers = ascii ''4'', previousResult = Some (Num 4)\<rparr>
   \<and> press ecma initial_state
        [ascii ''2'', ascii '','', ascii ''5'', key_times, ascii ''2'', ascii '','', ascii ''5'',
         ascii ''='']
     = \<lparr>expression = ascii ''6.25'', screenNumbers = ascii ''6.25'',
        previousResult = Some (Num (25 / 4))\<rparr>
   \<and> press ecma initial_state [ascii ''3'', key_reciprocal]
     = \<lparr>expression = ascii ''0.33333333'', screenNumbers = ascii ''0.33333333'',
        previousResult = Some (parseFloat (ascii ''0.33333333''))\<rparr>
   \<and> parseFloat (ascii ''0.33333333'') \<noteq> js_divide (Num 1) (Num 3)
   \<and> press ecma initial_state
        (map (\<lambda>c. [c]) (ascii ''13407807929942597099574024998205846127479365820592393377723561443721764030073546976801874298166903427690031858186486050853753882811946569946433649006084096'')
         @ [key_square])
     = \<lparr>expression = ascii ''Error'', screenNumbers = ascii ''Error'',
        previousResult = Some NaN\<rparr>"
proof -
  have half: "press ecma initial_state [ascii ''0'', ascii '','', ascii ''5'']
     = \<lparr>expression = ascii ''0,5'', screenNumbers = ascii ''0,5'', previousResult = None\<rparr>"
    by code_simp
  have read: "parseFloat (ascii ''0,5'') = Num 0"
    by code_simp
  have reciprocal: "press ecma initial_state [ascii ''0'', ascii '','', ascii ''5'', key_reciprocal]
     = error_state"
    by code_simp
  have quotient: "press ecma initial_state
        [ascii ''1'', key_divide, ascii ''0'', ascii '','', ascii ''5'', ascii ''='']
     = \<lparr>expression = ascii ''2'', screenNumbers = ascii ''2'', previousResult = Some (Num 2)\<rparr>"
    by code_simp
  have square: "press ecma initial_state [ascii ''2'', ascii '','', ascii ''5'', key_square]
     = \<lparr>expression = ascii ''4'', screenNumbers = ascii ''4'', previousResult = Some (Num 4)\<rparr>"
    by code_simp
  have product: "press ecma initial_state
        [ascii ''2'', ascii '','', ascii ''5'', key_times, ascii ''2'', ascii '','', ascii ''5'',
         ascii ''='']
     = \<lparr>expression = ascii ''6.25'', screenNumbers = ascii ''6.25'',
        previousResult = Some (Num (25 / 4))\<rparr>"
    by code_simp
  have third: "press ecma initial_state [ascii ''3'', key_reciprocal]
     = \<lparr>expression = ascii ''0.33333333'', screenNumbers = ascii ''0.33333333'',
        previousResult = Some (parseFloat (ascii ''0.33333333''))\<rparr>"
    by code_simp
  have rounded: "parseFloat (ascii ''0.33333333'') \<noteq> js_divide (Num 1) (Num 3)"
    by code_simp
  have overflow: "press ecma initial_state
        (map (\<lambda>c. [c]) (ascii ''13407807929942597099574024998205846127479365820592393377723561443721764030073546976801874298166903427690031858186486050853753882811946569946433649006084096'')
         @ [key_square])
     = \<lparr>expression = ascii ''Error'', screenNumbers = ascii ''Error'',
        previousResult = Some NaN\<rparr>"
  proof -
    have ne: "ascii ''13407807929942597099574024998205846127479365820592393377723561443721764030073546976801874298166903427690031858186486050853753882811946569946433649006084096'' \<noteq> []"
      by (simp add: ascii_def)
    note typed = typed_digits [OF ne digits_2_512, of ecma]
    have finite: "isFinite (b_parseFloat ecma (screenNumbers (press ecma initial_state
        (map (\<lambda>c. [c]) (ascii ''13407807929942597099574024998205846127479365820592393377723561443721764030073546976801874298166903427690031858186486050853753882811946569946433649006084096'')))))"
      unfolding typed by (simp add: ecma_def parse_2_512 isFinite_def)
    have infinite: "\<not> isFinite (b_multiply ecma
        (b_parseFloat ecma (screenNumbers (press ecma initial_state
          (map (\<lambda>c. [c]) (ascii ''13407807929942597099574024998205846127479365820592393377723561443721764030073546976801874298166903427690031858186486050853753882811946569946433649006084096'')))))
        (b_parseFloat ecma (screenNumbers (press ecma initial_state
          (map (\<lambda>c. [c]) (ascii ''13407807929942597099574024998205846127479365820592393377723561443721764030073546976801874298166903427690031858186486050853753882811946569946433649006084096''))))))"
      unfolding typed by (simp add: ecma_def parse_2_512 square_2_512 isFinite_def)
    show ?thesis
      unfolding press_snoc square_overflow [OF finite infinite]
      by (simp add: ecma_def parse_Error)
  qed
  show ?thesis
    by (intro conjI half read reciprocal quotient square product third rounded overflow)
qed

section \<open>The display is never empty\<close>

text \<open>
  Claim C5. For built-ins whose \<open>toString\<close> never returns the empty string: the display
  is \<open>0\<close> in the initial state, every key of the calculator takes a state with a
  display that is not empty to one with a display that is not empty, so the display is
  not empty after any run of keys; and backspace on an expression of at most one code
  unit gives the display \<open>0\<close>.
\<close>

theorem display_never_empty:
  assumes "\<forall>x. b_toString B x \<noteq> []"
  shows "screenNumbers initial_state = ascii ''0''
    \<and> (val \<in> set buttonValues \<and> screenNumbers s \<noteq> []
         \<longrightarrow> screenNumbers (handleButtonClick B s val) \<noteq> [])
    \<and> (set vals \<subseteq> set buttonValues \<longrightarrow> screenNumbers (press B initial_state vals) \<noteq> [])
    \<and> (length (expression s) \<le> 1
         \<longrightarrow> screenNumbers (handleButtonClick B s key_backspace) = ascii ''0'')"
proof -
  have init: "screenNumbers initial_state = ascii ''0''"
    by (simp add: initial_state_def)
  have step: "val \<in> set buttonValues \<and> screenNumbers s \<noteq> []
         \<longrightarrow> screenNumbers (handleButtonClick B s val) \<noteq> []"
    using hbc_display [OF assms] by blast
  have run: "set vals \<subseteq> set buttonValues \<longrightarrow> screenNumbers (press B initial_state vals) \<noteq> []"
  proof (induction vals rule: rev_induct)
    case Nil
    show ?case by (simp add: press_def initial_state_def ascii_def)
  next
    case (snoc v vs)
    then show ?case
      using hbc_display [OF assms, of v "press B initial_state vs"]
      by (simp add: press_snoc)
  qed
  have erase: "length (expression s) \<le> 1
         \<longrightarrow> screenNumbers (handleButtonClick B s key_backspace) = ascii ''0''"
    by (simp add: hbc_backspace initial_state_def)
  show ?thesis using init step run erase by blast
qed

theorem display_never_empty_witness:
  "(\<forall>x. b_toString ecma x \<noteq> [])
   \<and> set [ascii ''7'', key_backspace] \<subseteq> set buttonValues
   \<and> screenNumbers (press ecma initial_state [ascii ''7'', key_backspace]) = ascii ''0''
   \<and> screenNumbers (handleButtonClick ecma initial_state key_backspace) = ascii ''0''
   \<and> screenNumbers (press ecma initial_state [ascii ''7'', key_backspace]) \<noteq> []"
proof -
  have p: "\<forall>x. b_toString ecma x \<noteq> []"
    by (simp add: ecma_def toString_not_empty)
  have k: "set [ascii ''7'', key_backspace] \<subseteq> set buttonValues"
    by (simp add: buttonValues_def)
  have erased: "screenNumbers (press ecma initial_state [ascii ''7'', key_backspace]) = ascii ''0''"
    by code_simp
  have start: "screenNumbers (handleButtonClick ecma initial_state key_backspace) = ascii ''0''"
    using display_never_empty [OF p, of "ascii ''7''" initial_state "[]"]
    by (simp add: initial_state_def)
  have shown: "screenNumbers (press ecma initial_state [ascii ''7'', key_backspace]) \<noteq> []"
    using k display_never_empty [OF p, of "ascii ''7''" initial_state
        "[ascii ''7'', key_backspace]"]
    by blast
  show ?thesis
    using p k erased start shown by blast
qed

section \<open>The character class of safeEval\<close>

text \<open>
  Claim C1. When the translated expression holds a code unit outside the class
  \<open>[0-9+\-*/.() ]\<close>, \<open>safeEval\<close> returns NaN, whatever the built-ins. The text that
  \<open>safeEval\<close> hands to the \<open>Function\<close> constructor always passed the test of the class:
  built-ins that agree on the bodies made from such text give the same \<open>safeEval\<close>.
  On a state whose expression is not blank and holds such a code unit, the evaluate key
  gives the error display; and in every state that a run of keys reaches from the
  initial state such an expression is never blank, so there the evaluate key gives the
  error display with no further condition. With the built-ins of ECMAScript the keys
  1, %, %, %, % show \<open>1e-8\<close>, and after +, 1 the evaluate key gives the error display.
\<close>

theorem unsafe_text_is_rejected:
  "(\<not> list_all allowedChar (sanitize e) \<longrightarrow> safeEval B e = NaN)
   \<and> ((\<forall>t. securityCheck t \<longrightarrow> b_Function B (functionBody t) = b_Function B' (functionBody t))
        \<longrightarrow> safeEval B e = safeEval B' e)
   \<and> (trim (expression s) \<noteq> [] \<and> \<not> list_all allowedChar (sanitize (expression s))
        \<longrightarrow> handleButtonClick B s (ascii ''='') = error_state)
   \<and> (printable B \<and> set vals \<subseteq> set buttonValues
        \<and> \<not> list_all allowedChar (sanitize (expression (press B initial_state vals)))
        \<longrightarrow> handleButtonClick B (press B initial_state vals) (ascii ''='') = error_state)"
proof -
  have restricted: "(\<forall>t. securityCheck t \<longrightarrow> b_Function B (functionBody t) = b_Function B' (functionBody t))
        \<longrightarrow> safeEval B e = safeEval B' e"
    by (simp add: safeEval_def Let_def)
  have state: "trim (expression t) \<noteq> [] \<and> \<not> list_all allowedChar (sanitize (expression t))
        \<longrightarrow> handleButtonClick B t (ascii ''='') = error_state" for t
    by (simp add: hbc_equals rejected_is_NaN isFinite_def)
  have reached: "handleButtonClick B (press B initial_state vals) (ascii ''='') = error_state"
    if p: "printable B" and k: "set vals \<subseteq> set buttonValues"
      and bad: "\<not> list_all allowedChar (sanitize (expression (press B initial_state vals)))"
  proof -
    have "tidy (press B initial_state vals)" using press_tidy [OF p k] .
    then have "trim (expression (press B initial_state vals)) = expression (press B initial_state vals)"
      using trim_tidy by (simp add: tidy_def)
    moreover have "expression (press B initial_state vals) \<noteq> []"
      using bad by (auto simp: sanitize_def)
    ultimately show ?thesis using state bad by simp
  qed
  show ?thesis using rejected_is_NaN restricted state reached by blast
qed

theorem unsafe_text_is_rejected_witness:
  "printable ecma
   \<and> set [ascii ''1'', ascii ''%'', ascii ''%'', ascii ''%'', ascii ''%'', ascii ''+'', ascii ''1'']
       \<subseteq> set buttonValues
   \<and> expression (press ecma initial_state
       [ascii ''1'', ascii ''%'', ascii ''%'', ascii ''%'', ascii ''%'', ascii ''+'', ascii ''1''])
       = ascii ''1e-8+1''
   \<and> \<not> list_all allowedChar (sanitize (ascii ''1e-8+1''))
   \<and> safeEval ecma (ascii ''1e-8+1'') = NaN
   \<and> handleButtonClick ecma (press ecma initial_state
       [ascii ''1'', ascii ''%'', ascii ''%'', ascii ''%'', ascii ''%'', ascii ''+'', ascii ''1''])
       (ascii ''='') = error_state"
proof -
  have k: "set [ascii ''1'', ascii ''%'', ascii ''%'', ascii ''%'', ascii ''%'', ascii ''+'', ascii ''1'']
       \<subseteq> set buttonValues"
    by (simp add: buttonValues_def)
  have bad: "\<not> list_all allowedChar (sanitize (ascii ''1e-8+1''))"
    by (simp add: sanitize_def allowedChar_def isDigit_def ascii_def)
  show ?thesis
    using ecma_printable k bad run_scientific
      unsafe_text_is_rejected [of "ascii ''1e-8+1''" ecma ecma
        "press ecma initial_state
          [ascii ''1'', ascii ''%'', ascii ''%'', ascii ''%'', ascii ''%'', ascii ''+'', ascii ''1'']"
        "[ascii ''1'', ascii ''%'', ascii ''%'', ascii ''%'', ascii ''%'', ascii ''+'', ascii ''1'']"]
    by simp
qed

end
